theory Spec2Isabelle
  imports Main
begin

section \<open>Data model (lib/types.ts)\<close>

text \<open>
  JavaScript values as they come out of \<^verbatim>\<open>JSON.parse\<close>, out of the literal converter of
  \<^verbatim>\<open>lib/schema.ts\<close> and out of the REST gateway. Numbers are restricted to integers (the
  only numbers the synchronisation logic looks at are versions); an object is an
  association list in insertion order.
\<close>

datatype json =
    JNull
  | JBool bool
  | JNum int
  | JStr string
  | JArr "json list"
  | JObj "(string \<times> json) list"

text \<open>
  \<^verbatim>\<open>interface Schema { project_id: string; version: number; tables: Record<...> }\<close>.
  The code reads \<^verbatim>\<open>schema.version || 0\<close> everywhere, so a missing version is a value of
  the model: \<open>None\<close>. The tables are never inspected by the synchronisation logic and are
  kept as the JSON value they are at run time.
\<close>

record Schema =
  project_id :: string
  version :: "int option"
  tables :: json

text \<open>\<^verbatim>\<open>interface ValidationError { message; instancePath; params? }\<close>; the optional
  \<open>params\<close> object has optional string members only and is kept as the list of those present.\<close>

record ValidationError =
  message :: string
  instancePath :: string
  params :: "(string \<times> string) list option"

text \<open>\<^verbatim>\<open>interface ValidationResult { valid: boolean; errors?: ValidationError[] }\<close>\<close>

record ValidationResult =
  valid :: bool
  errors :: "ValidationError list option"

text \<open>The answer of \<^verbatim>\<open>compareSchema\<close>: \<^verbatim>\<open>{ valid: boolean }\<close>.\<close>

record CompareResult =
  valid :: bool

text \<open>\<^verbatim>\<open>interface SchemaFileResult { schema; projectId; filePath }\<close> (lib/schema.ts).\<close>

record SchemaFileResult =
  schema :: Schema
  projectId :: string
  filePath :: string

text \<open>
  A thrown value: an \<^verbatim>\<open>Error\<close> instance with its message and, for file-system errors, its
  \<^verbatim>\<open>code\<close>; or a thrown value that is no \<^verbatim>\<open>Error\<close> instance.
\<close>

datatype error = Error string "string option" | NonError

text \<open>\<^verbatim>\<open>error instanceof Error ? error.message : fallback\<close>\<close>

fun messageOr :: "error \<Rightarrow> string \<Rightarrow> string" where
  "messageOr (Error m c) fallback = m"
| "messageOr NonError fallback = fallback"

text \<open>\<^verbatim>\<open>(error as any).code\<close>\<close>

fun errorCode :: "error \<Rightarrow> string option" where
  "errorCode (Error m c) = c"
| "errorCode NonError = None"

text \<open>The conversion of an integer inside a template literal (decimal digits, a leading
  minus sign for negative numbers).\<close>

fun digitChar :: "nat \<Rightarrow> char" where
  "digitChar n = char_of (48 + n)"

fun showNat :: "nat \<Rightarrow> string" where
  "showNat n = (if n < 10 then [digitChar n] else showNat (n div 10) @ [digitChar (n mod 10)])"

declare showNat.simps [simp del]

definition showInt :: "int \<Rightarrow> string" where
  "showInt i = (if i < 0 then CHR ''-'' # showNat (nat (- i)) else showNat (nat i))"

section \<open>Version comparator (lib/schema.ts, compareVersions)\<close>

datatype CompareStatus = CmpCurrent | CmpAhead | CmpBehind | CmpEqual

record Comparison =
  status :: CompareStatus
  localVersion :: int
  remoteVersion :: int

text \<open>\<^verbatim>\<open>schema.version || 0\<close>: a missing version and the version 0 both give 0.\<close>

definition versionOr0 :: "Schema \<Rightarrow> int" where
  "versionOr0 s = (case version s of None \<Rightarrow> 0 | Some v \<Rightarrow> (if v = 0 then 0 else v))"

definition compareVersions :: "Schema \<Rightarrow> Schema \<Rightarrow> Comparison" where
  "compareVersions local remote =
    (let localVersion = versionOr0 local;
         remoteVersion = versionOr0 remote;
         status = (if localVersion = remoteVersion then CmpEqual
                   else if localVersion > remoteVersion then CmpAhead
                   else CmpBehind)
     in \<lparr> status = status, localVersion = localVersion, remoteVersion = remoteVersion \<rparr>)"

section \<open>Remote schema gateway (lib/api.ts)\<close>

text \<open>
  The gateway is a collaborator: each method either returns its answer or throws. The
  analyzers are given its answers as functions; the calls they make are recorded in the
  order they are made.
\<close>

record ApiClient =
  getProjectSchema :: "string \<Rightarrow> error + Schema option"
  pushProjectSchema :: "string \<Rightarrow> Schema \<Rightarrow> error + unit"
  validateSchema :: "Schema \<Rightarrow> error + ValidationResult"
  compareSchema :: "Schema \<Rightarrow> error + CompareResult"

datatype api_call =
    GetProjectSchema string
  | PushProjectSchema string Schema
  | ValidateSchema Schema
  | CompareSchema Schema

section \<open>Status analyzers\<close>

datatype Status = Current | Behind | Ahead | Conflict | Invalid | NoSchema

subsection \<open>commands/push.tsx, analyzePushAction\<close>

record PushStatusResult =
  status :: Status
  projectId :: string
  localVersion :: int
  remoteVersion :: int
  message :: "string list"
  needsConfirmation :: bool
  confirmationTitle :: string
  confirmationMessage :: string
  validationErrors :: "ValidationError list option"

text \<open>\<^verbatim>\<open>{ ...baseResult, status: st }\<close> of analyzePushAction.\<close>

definition pushBaseResult :: "SchemaFileResult \<Rightarrow> Comparison \<Rightarrow> Status \<Rightarrow> PushStatusResult" where
  "pushBaseResult localConfig comparison st =
    \<lparr> PushStatusResult.status = st,
      projectId = SchemaFileResult.projectId localConfig,
      localVersion = Comparison.localVersion comparison,
      remoteVersion = Comparison.remoteVersion comparison,
      message = [],
      needsConfirmation = False,
      confirmationTitle = '''',
      confirmationMessage = '''',
      validationErrors = None \<rparr>"

definition analyzePushAction ::
  "SchemaFileResult \<Rightarrow> Schema \<Rightarrow> Comparison \<Rightarrow> ApiClient \<Rightarrow> api_call list \<times> PushStatusResult" where
  "analyzePushAction localConfig remoteSchema comparison apiClient =
    (let baseResult = pushBaseResult localConfig comparison in
     case Comparison.status comparison of
       CmpAhead \<Rightarrow>
         ([ValidateSchema (schema localConfig)],
          case validateSchema apiClient (schema localConfig) of
            Inr validation \<Rightarrow>
              if ValidationResult.valid validation = False \<and> errors validation \<noteq> None
              then (baseResult Invalid)
                     \<lparr> PushStatusResult.message := [''Errors found in schema! Please fix:'',
                         ''Your local schema has validation errors that must be resolved before pushing.''],
                       PushStatusResult.validationErrors := errors validation \<rparr>
              else (baseResult Ahead)
                     \<lparr> PushStatusResult.message := [''Your local schema is ahead of the remote version.'',
                         ''Push your changes to publish them?''],
                       PushStatusResult.needsConfirmation := True,
                       PushStatusResult.confirmationTitle := ''Push Schema Changes'',
                       PushStatusResult.confirmationMessage :=
                         ''This will publish your local schema changes to the remote project.'' \<rparr>
          | Inl error \<Rightarrow>
              (baseResult Invalid)
                \<lparr> PushStatusResult.message := [''Error validating schema: '' @ messageOr error ''Unknown error'',
                    ''Please check your schema for syntax errors.''] \<rparr>)
     | CmpEqual \<Rightarrow>
         if Comparison.localVersion comparison = 0 \<and> Comparison.remoteVersion comparison = 0
         then
           ([ValidateSchema (schema localConfig)],
            case validateSchema apiClient (schema localConfig) of
              Inr validation \<Rightarrow>
                if ValidationResult.valid validation = False \<and> errors validation \<noteq> None
                then (baseResult Invalid)
                       \<lparr> PushStatusResult.message := [''Errors found in schema! Please fix:''],
                         PushStatusResult.validationErrors := errors validation \<rparr>
                else (baseResult Invalid)
                       \<lparr> PushStatusResult.message := [''Schema changes are valid!'',
                           ''Please increment your version number to 1'',
                           ''and run 'basic push' if you are ready to publish your changes.''] \<rparr>
            | Inl error \<Rightarrow>
                (baseResult Invalid)
                  \<lparr> PushStatusResult.message := [''Error validating schema: '' @ messageOr error ''Unknown error''] \<rparr>)
         else
           ([CompareSchema (schema localConfig)],
            case compareSchema apiClient (schema localConfig) of
              Inr comparisonResult \<Rightarrow>
                if CompareResult.valid comparisonResult
                then (baseResult Current)
                       \<lparr> PushStatusResult.message := [''Schema is up to date!'', ''No push needed.''] \<rparr>
                else (baseResult Invalid)
                       \<lparr> PushStatusResult.message := [''Your local schema differs from the remote schema.'',
                           ''Please increment your version number before pushing changes.''] \<rparr>
            | Inl error \<Rightarrow>
                (baseResult Current)
                  \<lparr> PushStatusResult.message := [''Schema appears to be up to date.'',
                      ''(Unable to verify schema content - assuming current)''] \<rparr>)
     | CmpBehind \<Rightarrow>
         ([],
          (baseResult Behind)
            \<lparr> PushStatusResult.message := [''Your local schema is behind the remote version.'',
                ''Did you mean to pull instead?'',
                ''Use 'basic pull' to get the latest changes.''] \<rparr>)
     | CmpCurrent \<Rightarrow>
         ([],
          (baseResult Current)
            \<lparr> PushStatusResult.message := [''Schema is up to date!'', ''No push needed.''] \<rparr>))"

subsection \<open>commands/pull.tsx, analyzePullAction\<close>

record PullStatusResult =
  status :: Status
  projectId :: string
  localVersion :: int
  remoteVersion :: int
  message :: "string list"
  needsConfirmation :: bool
  confirmationTitle :: string
  confirmationMessage :: string

text \<open>\<^verbatim>\<open>{ ...baseResult, status: st }\<close> of analyzePullAction.\<close>

definition pullBaseResult :: "SchemaFileResult \<Rightarrow> Comparison \<Rightarrow> Status \<Rightarrow> PullStatusResult" where
  "pullBaseResult localConfig comparison st =
    \<lparr> PullStatusResult.status = st,
      projectId = SchemaFileResult.projectId localConfig,
      localVersion = Comparison.localVersion comparison,
      remoteVersion = Comparison.remoteVersion comparison,
      message = [],
      needsConfirmation = False,
      confirmationTitle = '''',
      confirmationMessage = '''' \<rparr>"

definition analyzePullAction ::
  "SchemaFileResult \<Rightarrow> Schema \<Rightarrow> Comparison \<Rightarrow> ApiClient \<Rightarrow> api_call list \<times> PullStatusResult" where
  "analyzePullAction localConfig remoteSchema comparison apiClient =
    (let baseResult = pullBaseResult localConfig comparison in
     case Comparison.status comparison of
       CmpBehind \<Rightarrow>
         ([],
          (baseResult Behind)
            \<lparr> PullStatusResult.message := [''Your local schema is behind the remote version.'',
                ''Pull the latest changes?''],
              PullStatusResult.needsConfirmation := True,
              PullStatusResult.confirmationTitle := ''Pull Remote Schema'',
              PullStatusResult.confirmationMessage :=
                ''This will update your local schema to the latest version.'' \<rparr>)
     | CmpEqual \<Rightarrow>
         if Comparison.localVersion comparison = 0 \<and> Comparison.remoteVersion comparison = 0
         then
           ([],
            (baseResult Current)
              \<lparr> PullStatusResult.message := [''Schema is up to date!'', ''No pull needed.''] \<rparr>)
         else
           ([CompareSchema (schema localConfig)],
            case compareSchema apiClient (schema localConfig) of
              Inr comparisonResult \<Rightarrow>
                if CompareResult.valid comparisonResult
                then (baseResult Current)
                       \<lparr> PullStatusResult.message := [''Schema is up to date!'', ''No pull needed.''] \<rparr>
                else (baseResult Conflict)
                       \<lparr> PullStatusResult.message := [''Schema conflicts detected!'',
                           ''Your local schema differs from the remote schema at the same version.'',
                           ''Pull the remote version to override local changes?''],
                         PullStatusResult.needsConfirmation := True,
                         PullStatusResult.confirmationTitle := ''Override Local Changes'',
                         PullStatusResult.confirmationMessage :=
                           ''This will replace your local schema with the remote version.'' \<rparr>
            | Inl error \<Rightarrow>
                (baseResult Current)
                  \<lparr> PullStatusResult.message := [''Schema is up to date!'', ''No pull needed.'',
                      ''(Unable to verify schema content - assuming current)''] \<rparr>)
     | CmpAhead \<Rightarrow>
         ([],
          (baseResult Ahead)
            \<lparr> PullStatusResult.message := [''Your local schema is ahead of the remote version.'',
                ''Did you mean to push instead?'',
                ''Use 'basic push' to publish your changes.''] \<rparr>)
     | CmpCurrent \<Rightarrow>
         ([],
          (baseResult Current)
            \<lparr> PullStatusResult.message := [''Schema is up to date!'', ''No pull needed.''] \<rparr>))"

subsection \<open>commands/status.tsx, analyzeStatus\<close>

record StatusResult =
  status :: Status
  projectId :: string
  projectName :: "string option"
  localVersion :: int
  remoteVersion :: int
  message :: "string list"
  suggestions :: "string list"
  validationErrors :: "ValidationError list option"

text \<open>
  \<^verbatim>\<open>{ ...baseResult, status: st }\<close> of analyzeStatus, after the line
  \<^verbatim>\<open>Remote schema version: n\<close> has been pushed onto the base message when the remote
  version is positive.
\<close>

definition statusBaseResult :: "SchemaFileResult \<Rightarrow> Comparison \<Rightarrow> Status \<Rightarrow> StatusResult" where
  "statusBaseResult localConfig comparison st =
    \<lparr> StatusResult.status = st,
      projectId = SchemaFileResult.projectId localConfig,
      projectName = None,
      localVersion = Comparison.localVersion comparison,
      remoteVersion = Comparison.remoteVersion comparison,
      message =
        [''Project ID: '' @ SchemaFileResult.projectId localConfig] @
        (if Comparison.remoteVersion comparison > 0
         then [''Remote schema version: '' @ showInt (Comparison.remoteVersion comparison)]
         else []),
      suggestions = [],
      validationErrors = None \<rparr>"

text \<open>
  analyzeStatus obtains the gateway from \<^verbatim>\<open>ApiClient.getInstance()\<close>; the singleton is the
  last argument here.
\<close>

definition analyzeStatus ::
  "SchemaFileResult \<Rightarrow> Schema \<Rightarrow> Comparison \<Rightarrow> ApiClient \<Rightarrow> api_call list \<times> StatusResult" where
  "analyzeStatus localConfig remoteSchema comparison apiClient =
    (let localSchema = schema localConfig;
         baseResult = statusBaseResult localConfig comparison;
         baseMessage = StatusResult.message (baseResult Invalid) in
     case Comparison.status comparison of
       CmpBehind \<Rightarrow>
         ([],
          (baseResult Behind)
            \<lparr> StatusResult.message := baseMessage @
                [''Schema is out of date! Current: '' @ showInt (Comparison.localVersion comparison) @
                 '', Latest: '' @ showInt (Comparison.remoteVersion comparison)],
              StatusResult.suggestions := [''Run 'basic pull' to update your local schema'',
                ''Review the changes before pulling if you have local modifications'',
                ''Consider backing up your current schema if you have unsaved work''] \<rparr>)
     | CmpAhead \<Rightarrow>
         ([ValidateSchema localSchema],
          case validateSchema apiClient localSchema of
            Inr validation \<Rightarrow>
              if ValidationResult.valid validation = False \<and> errors validation \<noteq> None
              then (baseResult Invalid)
                     \<lparr> StatusResult.message := baseMessage @
                         [''Changes found: Local schema version '' @
                            showInt (Comparison.localVersion comparison) @
                            '' is ahead of remote version '' @
                            showInt (Comparison.remoteVersion comparison),
                          ''Errors found in schema! Please fix:''],
                       StatusResult.validationErrors := errors validation,
                       StatusResult.suggestions := [''Fix the validation errors shown below'',
                         ''Run 'basic status' again after fixing errors'',
                         ''Review your schema syntax and field definitions''] \<rparr>
              else (baseResult Ahead)
                     \<lparr> StatusResult.message := baseMessage @
                         [''Changes found: Local schema version '' @
                            showInt (Comparison.localVersion comparison) @
                            '' is ahead of remote version '' @
                            showInt (Comparison.remoteVersion comparison),
                          ''Schema changes are valid!''],
                       StatusResult.suggestions := [''Run 'basic push' to publish your changes'',
                         ''Review your changes before publishing'',
                         ''Test your schema locally if possible''] \<rparr>
          | Inl error \<Rightarrow>
              (baseResult Invalid)
                \<lparr> StatusResult.message := baseMessage @
                    [''Error validating schema: '' @ messageOr error ''Unknown error''],
                  StatusResult.suggestions := [''Check your schema for syntax errors'',
                    ''Ensure all required fields are present'',
                    ''Verify your basic.config file is valid JSON/JavaScript''] \<rparr>)
     | CmpEqual \<Rightarrow>
         if Comparison.localVersion comparison = 0 \<and> Comparison.remoteVersion comparison = 0
         then
           ([ValidateSchema localSchema],
            case validateSchema apiClient localSchema of
              Inr validation \<Rightarrow>
                if ValidationResult.valid validation = False \<and> errors validation \<noteq> None
                then (baseResult Invalid)
                       \<lparr> StatusResult.message := baseMessage @ [''Errors found in schema! Please fix:''],
                         StatusResult.validationErrors := errors validation,
                         StatusResult.suggestions := [''Fix the validation errors shown below'',
                           ''Run 'basic status' again after fixing errors''] \<rparr>
                else (baseResult Ahead)
                       \<lparr> StatusResult.message := baseMessage @
                           ['''',
                            ''Schema changes are valid!'',
                            ''Please increment your version number to 1'',
                            ''and run 'basic push' if you are ready to publish your changes.''],
                         StatusResult.suggestions :=
                          [''Update the version field in your schema from 0 to 1'',
                           ''Run 'basic push' after incrementing the version'',
                           ''Ensure your schema changes are tested and ready for production''] \<rparr>
            | Inl error \<Rightarrow>
                (baseResult Invalid)
                  \<lparr> StatusResult.message := baseMessage @
                      [''Error validating schema: '' @ messageOr error ''Unknown error''],
                    StatusResult.suggestions := [''Check your schema for syntax errors''] \<rparr>)
         else
           ([CompareSchema localSchema],
            case compareSchema apiClient localSchema of
              Inr comparison' \<Rightarrow>
                if CompareResult.valid comparison'
                then (baseResult Current)
                       \<lparr> StatusResult.message := baseMessage @ [''Schema is up to date!''],
                         StatusResult.suggestions := [''Continue working on your project'',
                           ''Make schema modifications if needed'',
                           ''Run 'basic status' again after making changes''] \<rparr>
                else (baseResult Conflict)
                       \<lparr> StatusResult.message := baseMessage @
                           ['''',
                            ''Schema conflicts found! Your local schema is different from the remote schema.''],
                         StatusResult.suggestions :=
                          [''Run 'basic pull' to override local changes with remote schema'',
                           ''Or increment the version number in your local schema'',
                           ''Compare your local changes with the remote version before deciding'',
                           ''Consider creating a backup of your local changes''] \<rparr>
            | Inl error \<Rightarrow>
                (baseResult Invalid)
                  \<lparr> StatusResult.message := baseMessage @
                      [''Error checking schema conflict: '' @ messageOr error ''Unknown error''],
                    StatusResult.suggestions := [''Check your network connection'',
                      ''Ensure the project ID is correct''] \<rparr>)
     | CmpCurrent \<Rightarrow>
         ([],
          (baseResult Invalid)
            \<lparr> StatusResult.message := baseMessage @ [''Unknown schema status''],
              StatusResult.suggestions := [''Try running 'basic status' again''] \<rparr>))"

section \<open>Sync orchestrators (commands/push.tsx, commands/pull.tsx)\<close>

text \<open>
  The two commands are React components: a state, an effect that runs once when the
  component is mounted, and a key handler. Their collaborators are the connectivity check,
  the token store, the gateway and the two functions of \<^verbatim>\<open>lib/schema.ts\<close> that read and
  write the local config file; the orchestrators are modelled for arbitrary answers of all
  of them. The file system is a map from paths to file contents; it is threaded through
  the run, together with the list of collaborator calls made so far.
\<close>

type_synonym fs = "string \<rightharpoonup> string"

record Token =
  access_token :: string
  refresh_token :: string
  expires_at :: int
  token_type :: string

record Env =
  isOnline :: "error + bool"
  getToken :: "error + Token option"
  apiClient :: ApiClient
  readSchemaFromConfig :: "fs \<Rightarrow> error + SchemaFileResult option"
  saveSchemaToConfig :: "Schema \<Rightarrow> fs \<Rightarrow> error + (string \<times> fs)"

datatype effect =
    Api api_call
  | ReadSchemaFromConfig
  | SaveSchemaToConfig Schema

text \<open>\<^verbatim>\<open>MESSAGES\<close> of lib/constants.ts.\<close>

definition OFFLINE :: string where
  "OFFLINE = ''you are offline. please check your internet connection.''"

definition LOGGED_OUT :: string where
  "LOGGED_OUT = ''you are not logged in. please login with 'basic login'' @ [CHR 0x27]"

text \<open>The synthesized remote schema \<^verbatim>\<open>{ project_id, version: 0, tables: {} }\<close>.\<close>

definition emptyRemoteSchema :: "string \<Rightarrow> Schema" where
  "emptyRemoteSchema pid = \<lparr> project_id = pid, version = Some 0, tables = JObj [] \<rparr>"

text \<open>The key handler's arguments (ink's \<^verbatim>\<open>useInput((input, key) => ...)\<close>).\<close>

record Key =
  upArrow :: bool
  downArrow :: bool
  return :: bool
  escape :: bool

datatype YesNo = Yes | No

text \<open>
  What can happen to a mounted component: a key press reaches the handler, or the
  asynchronous function that is pending (the mount effect while checking, the tail of
  handlePush or handlePull after the phase has been set) runs to its end.
\<close>

datatype event = Input string Key | Settle

record 's App =
  state :: 's
  selectedOption :: YesNo
  files :: fs
  log :: "effect list"

subsection \<open>PushApp\<close>

datatype PushPhase = Checking | Confirming | Pushing | Success | ErrorPhase | NoAction

record PushResult =
  projectId :: string
  oldVersion :: int
  newVersion :: int
  filePath :: string

record PushState =
  phase :: PushPhase
  error :: "string option"
  statusResult :: "PushStatusResult option"
  pushResult :: "PushResult option"

definition pushError :: "string \<Rightarrow> PushState" where
  "pushError msg = \<lparr> phase = ErrorPhase, error = Some msg, statusResult = None, pushResult = None \<rparr>"

definition pushNoSchemaResult :: PushStatusResult where
  "pushNoSchemaResult =
    \<lparr> PushStatusResult.status = NoSchema,
      projectId = '''',
      localVersion = 0,
      remoteVersion = 0,
      message = [''No schema found in config files'',
        ''Run 'basic init' to create a new project or import an existing project''],
      needsConfirmation = False,
      confirmationTitle = '''',
      confirmationMessage = '''',
      validationErrors = None \<rparr>"

text \<open>The mount effect \<^verbatim>\<open>checkPushStatus\<close>: the state it sets and the calls it makes.\<close>

definition checkPushStatus :: "Env \<Rightarrow> fs \<Rightarrow> PushState \<times> effect list" where
  "checkPushStatus env fs =
    (case isOnline env of
       Inl e \<Rightarrow> (pushError (messageOr e ''Failed to check push status''), [])
     | Inr online \<Rightarrow>
       if \<not> online then (pushError OFFLINE, [])
       else (case getToken env of
         Inl e \<Rightarrow> (pushError (messageOr e ''Failed to check push status''), [])
       | Inr None \<Rightarrow> (pushError LOGGED_OUT, [])
       | Inr (Some token) \<Rightarrow>
         (case Env.readSchemaFromConfig env fs of
            Inl e \<Rightarrow> (pushError (messageOr e ''Failed to check push status''), [ReadSchemaFromConfig])
          | Inr None \<Rightarrow>
              (\<lparr> phase = NoAction, error = None,
                 statusResult = Some pushNoSchemaResult, pushResult = None \<rparr>,
               [ReadSchemaFromConfig])
          | Inr (Some localConfig) \<Rightarrow>
            (case getProjectSchema (apiClient env) (SchemaFileResult.projectId localConfig) of
               Inl e \<Rightarrow>
                 (pushError (''Error fetching remote schema: '' @ messageOr e ''Unknown error''),
                  [ReadSchemaFromConfig,
                   Api (GetProjectSchema (SchemaFileResult.projectId localConfig))])
             | Inr fetched \<Rightarrow>
               (let remoteSchema =
                      (case fetched of
                         None \<Rightarrow> emptyRemoteSchema (SchemaFileResult.projectId localConfig)
                       | Some s \<Rightarrow> s);
                    comparison = compareVersions (schema localConfig) remoteSchema;
                    (calls, result) = analyzePushAction localConfig remoteSchema comparison (apiClient env)
                in (\<lparr> phase = (if PushStatusResult.needsConfirmation result then Confirming else NoAction),
                      error = None, statusResult = Some result, pushResult = None \<rparr>,
                    [ReadSchemaFromConfig,
                     Api (GetProjectSchema (SchemaFileResult.projectId localConfig))] @
                    map Api calls))))))"

text \<open>
  The body of \<^verbatim>\<open>handlePush\<close> after the phase has been set to \<^verbatim>\<open>pushing\<close>. The argument
  is the component state the handler closed over.
\<close>

definition handlePush :: "Env \<Rightarrow> fs \<Rightarrow> PushState \<Rightarrow> PushState \<times> effect list" where
  "handlePush env fs st =
    (case statusResult st of
       None \<Rightarrow> (pushError ''No status result available'', [])
     | Some sr \<Rightarrow>
       (case Env.readSchemaFromConfig env fs of
          Inl e \<Rightarrow> (pushError (messageOr e ''Failed to push schema''), [ReadSchemaFromConfig])
        | Inr None \<Rightarrow> (pushError ''Local schema not found'', [ReadSchemaFromConfig])
        | Inr (Some localConfig) \<Rightarrow>
          (case pushProjectSchema (apiClient env) (SchemaFileResult.projectId localConfig)
                  (schema localConfig) of
             Inl e \<Rightarrow>
               (pushError (messageOr e ''Failed to push schema''),
                [ReadSchemaFromConfig,
                 Api (PushProjectSchema (SchemaFileResult.projectId localConfig) (schema localConfig))])
           | Inr u \<Rightarrow>
               (\<lparr> phase = Success, error = None, statusResult = None,
                  pushResult = Some
                    \<lparr> PushResult.projectId = SchemaFileResult.projectId localConfig,
                      oldVersion = PushStatusResult.remoteVersion sr,
                      newVersion = versionOr0 (schema localConfig),
                      filePath = SchemaFileResult.filePath localConfig \<rparr> \<rparr>,
                [ReadSchemaFromConfig,
                 Api (PushProjectSchema (SchemaFileResult.projectId localConfig) (schema localConfig))]))))"

definition toggle :: "YesNo \<Rightarrow> YesNo" where
  "toggle prev = (if prev = Yes then No else Yes)"

text \<open>
  One step of the mounted component. A component whose phase is \<^verbatim>\<open>error\<close>,
  \<^verbatim>\<open>success\<close> or \<^verbatim>\<open>no-action\<close> has called \<^verbatim>\<open>process.exit\<close>: nothing happens to
  it any more.
\<close>

definition pushStep :: "Env \<Rightarrow> event \<Rightarrow> PushState App \<Rightarrow> PushState App" where
  "pushStep env ev app =
    (case (phase (state app), ev) of
       (Checking, Settle) \<Rightarrow>
         (let (st, calls) = checkPushStatus env (files app)
          in app \<lparr> state := st, log := log app @ calls \<rparr>)
     | (Confirming, Input input key) \<Rightarrow>
         if upArrow key \<or> downArrow key
         then app \<lparr> selectedOption := toggle (selectedOption app) \<rparr>
         else if return key
         then (if selectedOption app = Yes
               then app \<lparr> state := (state app) \<lparr> phase := Pushing \<rparr> \<rparr>
               else app \<lparr> state := (state app) \<lparr> phase := NoAction \<rparr> \<rparr>)
         else if escape key \<or> input = ''q''
         then app \<lparr> state := (state app) \<lparr> phase := NoAction \<rparr> \<rparr>
         else app
     | (Pushing, Settle) \<Rightarrow>
         (let (st, calls) = handlePush env (files app) (state app)
          in app \<lparr> state := st, log := log app @ calls \<rparr>)
     | _ \<Rightarrow> app)"

definition pushInit :: "fs \<Rightarrow> PushState App" where
  "pushInit fs =
    \<lparr> state = \<lparr> phase = Checking, error = None, statusResult = None, pushResult = None \<rparr>,
      selectedOption = Yes, files = fs, log = [] \<rparr>"

definition pushRun :: "Env \<Rightarrow> event list \<Rightarrow> PushState App \<Rightarrow> PushState App" where
  "pushRun env evs app = foldl (\<lambda>a ev. pushStep env ev a) app evs"

subsection \<open>PullApp\<close>

datatype PullPhase = PChecking | PConfirming | Pulling | PSuccess | PError | PNoAction

record PullResult =
  projectId :: string
  oldVersion :: int
  newVersion :: int
  filePath :: string

record PullState =
  phase :: PullPhase
  error :: "string option"
  statusResult :: "PullStatusResult option"
  pullResult :: "PullResult option"








section \<open>Local schema accessor (lib/schema.ts)\<close>

subsection \<open>The JavaScript operations the accessor relies on\<close>

text \<open>Truthiness (\<^verbatim>\<open>!x\<close> is its negation) and \<^verbatim>\<open>typeof\<close> of a value.\<close>

fun truthy :: "json \<Rightarrow> bool" where
  "truthy JNull = False"
| "truthy (JBool b) = b"
| "truthy (JNum n) = (n \<noteq> 0)"
| "truthy (JStr s) = (s \<noteq> [])"
| "truthy (JArr xs) = True"
| "truthy (JObj kvs) = True"

fun typeof :: "json \<Rightarrow> string" where
  "typeof JNull = ''object''"
| "typeof (JBool b) = ''boolean''"
| "typeof (JNum n) = ''number''"
| "typeof (JStr s) = ''string''"
| "typeof (JArr xs) = ''object''"
| "typeof (JObj kvs) = ''object''"

text \<open>
  Reading one of the members \<^verbatim>\<open>project_id\<close>, \<^verbatim>\<open>version\<close>, \<^verbatim>\<open>tables\<close> of a value:
  a TypeError on \<^verbatim>\<open>null\<close>, the member of an object when it has one, and
  \<^verbatim>\<open>undefined\<close> (\<open>None\<close>) otherwise.
\<close>

fun getMember :: "json \<Rightarrow> string \<Rightarrow> error + json option" where
  "getMember JNull k =
     Inl (Error (''Cannot read properties of null (reading '' @ [CHR 0x27] @ k @ [CHR 0x27] @ '')'') None)"
| "getMember (JObj kvs) k = Inr (map_of kvs k)"
| "getMember v k = Inr None"

text \<open>\<^verbatim>\<open>!x\<close> and \<^verbatim>\<open>typeof x\<close> for a member that may be \<^verbatim>\<open>undefined\<close>.\<close>

definition falsy :: "json option \<Rightarrow> bool" where
  "falsy m = (case m of None \<Rightarrow> True | Some v \<Rightarrow> \<not> truthy v)"

definition typeofMember :: "json option \<Rightarrow> string" where
  "typeofMember m = (case m of None \<Rightarrow> ''undefined'' | Some v \<Rightarrow> typeof v)"

text \<open>\<^verbatim>\<open>obj[key] = v\<close>: an existing member keeps its place, a new one goes last.\<close>

fun setMember :: "(string \<times> json) list \<Rightarrow> string \<Rightarrow> json \<Rightarrow> (string \<times> json) list" where
  "setMember [] k v = [(k, v)]"
| "setMember ((k', v') # kvs) k v =
     (if k' = k then (k, v) # kvs else (k', v') # setMember kvs k v)"

definition endsWith :: "string \<Rightarrow> string \<Rightarrow> bool" where
  "endsWith s suffix =
     (length suffix \<le> length s \<and> drop (length s - length suffix) s = suffix)"

text \<open>\<^verbatim>\<open>path.join(targetDir, filename)\<close> for a directory and a plain file name.\<close>

definition pathJoin :: "string \<Rightarrow> string \<Rightarrow> string" where
  "pathJoin dir filename = dir @ ''/'' @ filename"

subsection \<open>The syntax tree of @babel/parser\<close>

text \<open>
  The part of the tree the extractor looks at. Every node the extractor has no case for is
  kept with the name of its type. A variable declaration has at least one declarator.
\<close>

datatype node =
    ObjectExpression "property list"
  | ArrayExpression "node option list"
  | StringLiteral string
  | NumericLiteral int
  | BooleanLiteral bool
  | NullLiteral
  | Identifier string
  | OtherNode string
and property =
    ObjectProperty node node
  | OtherMember string

datatype declarator = VariableDeclarator node "node option"

datatype statement =
    VariableDeclaration declarator "declarator list"
  | ExportNamedDeclaration "statement option"
  | ExportDefaultDeclaration node
  | OtherStatement string

text \<open>
  The two parsers are libraries outside the repository: \<^verbatim>\<open>JSON.parse\<close> and
  \<^verbatim>\<open>parse\<close> of @babel/parser (its result is \<^verbatim>\<open>ast.program.body\<close>). Either returns
  its value or throws.
\<close>

record Parsers =
  JSON_parse :: "string \<Rightarrow> error + json"
  parse :: "string \<Rightarrow> error + statement list"

fun nodeType :: "node \<Rightarrow> string" where
  "nodeType (ObjectExpression ps) = ''ObjectExpression''"
| "nodeType (ArrayExpression es) = ''ArrayExpression''"
| "nodeType (StringLiteral s) = ''StringLiteral''"
| "nodeType (NumericLiteral n) = ''NumericLiteral''"
| "nodeType (BooleanLiteral b) = ''BooleanLiteral''"
| "nodeType NullLiteral = ''NullLiteral''"
| "nodeType (Identifier name) = ''Identifier''"
| "nodeType (OtherNode t) = t"

subsection \<open>getPropertyKey and convertAstToObject\<close>

fun getPropertyKey :: "node \<Rightarrow> error + string" where
  "getPropertyKey (Identifier name) = Inr name"
| "getPropertyKey (StringLiteral v) = Inr v"
| "getPropertyKey key = Inl (Error (''Unsupported property key type: '' @ nodeType key) None)"

fun convertAstToObject :: "node \<Rightarrow> error + json"
  and convertProperties :: "property list \<Rightarrow> (string \<times> json) list \<Rightarrow> error + (string \<times> json) list"
  and convertElements :: "node option list \<Rightarrow> error + json list" where
  "convertAstToObject (ObjectExpression ps) =
     (case convertProperties ps [] of Inl e \<Rightarrow> Inl e | Inr obj \<Rightarrow> Inr (JObj obj))"
| "convertAstToObject (ArrayExpression es) =
     (case convertElements es of Inl e \<Rightarrow> Inl e | Inr vs \<Rightarrow> Inr (JArr vs))"
| "convertAstToObject (StringLiteral s) = Inr (JStr s)"
| "convertAstToObject (NumericLiteral n) = Inr (JNum n)"
| "convertAstToObject (BooleanLiteral b) = Inr (JBool b)"
| "convertAstToObject NullLiteral = Inr JNull"
| "convertAstToObject (Identifier name) =
     (if name = ''true'' then Inr (JBool True)
      else if name = ''false'' then Inr (JBool False)
      else if name = ''null'' then Inr JNull
      else Inl (Error (''Unexpected identifier: '' @ name) None))"
| "convertAstToObject (OtherNode t) = Inl (Error (''Unsupported node type: '' @ t) None)"
| "convertProperties [] obj = Inr obj"
| "convertProperties (ObjectProperty key val # ps) obj =
     (case getPropertyKey key of
        Inl e \<Rightarrow> Inl e
      | Inr k \<Rightarrow>
         (case convertAstToObject val of
            Inl e \<Rightarrow> Inl e
          | Inr v \<Rightarrow> convertProperties ps (setMember obj k v)))"
| "convertProperties (OtherMember t # ps) obj = convertProperties ps obj"
| "convertElements [] = Inr []"
| "convertElements (None # es) =
     (case convertElements es of Inl e \<Rightarrow> Inl e | Inr vs \<Rightarrow> Inr (JNull # vs))"
| "convertElements (Some element # es) =
     (case convertAstToObject element of
        Inl e \<Rightarrow> Inl e
      | Inr v \<Rightarrow> (case convertElements es of Inl e \<Rightarrow> Inl e | Inr vs \<Rightarrow> Inr (v # vs)))"

subsection \<open>extractSchemaFromCode\<close>

text \<open>Step 1, \<^verbatim>\<open>export const schema = ...\<close>: what one statement assigns to schemaNode.\<close>

fun namedExportInit :: "statement \<Rightarrow> node option" where
  "namedExportInit (ExportNamedDeclaration (Some (VariableDeclaration (VariableDeclarator (Identifier name) (Some init)) rest))) =
     (if name = ''schema'' then Some init else None)"
| "namedExportInit stmt = None"

text \<open>The predicate of \<^verbatim>\<open>body.find\<close> in step 2.\<close>

fun declaresSchema :: "statement \<Rightarrow> bool" where
  "declaresSchema (VariableDeclaration (VariableDeclarator (Identifier name) init) rest) =
     (name = ''schema'')"
| "declaresSchema stmt = False"

fun declaredInit :: "statement \<Rightarrow> node option" where
  "declaredInit (VariableDeclaration (VariableDeclarator ident init) rest) = init"
| "declaredInit stmt = None"

text \<open>Step 2, \<^verbatim>\<open>export default schema\<close> and \<^verbatim>\<open>export default { ... }\<close>: what one
  statement assigns to schemaNode.\<close>

fun defaultExportInit :: "statement list \<Rightarrow> statement \<Rightarrow> node option" where
  "defaultExportInit body (ExportDefaultDeclaration (Identifier name)) =
     (if name = ''schema''
      then (case find declaresSchema body of
              None \<Rightarrow> None
            | Some schemaVar \<Rightarrow> declaredInit schemaVar)
      else None)"
| "defaultExportInit body (ExportDefaultDeclaration (ObjectExpression ps)) = Some (ObjectExpression ps)"
| "defaultExportInit body stmt = None"

text \<open>A \<^verbatim>\<open>forEach\<close> that assigns to schemaNode: the last assignment stays.\<close>

definition lastAssigned :: "(statement \<Rightarrow> node option) \<Rightarrow> statement list \<Rightarrow> node option" where
  "lastAssigned f body =
     foldl (\<lambda>schemaNode stmt. case f stmt of None \<Rightarrow> schemaNode | Some n \<Rightarrow> Some n) None body"

definition findSchemaNode :: "statement list \<Rightarrow> node option" where
  "findSchemaNode body =
     (case lastAssigned namedExportInit body of
        Some n \<Rightarrow> Some n
      | None \<Rightarrow> lastAssigned (defaultExportInit body) body)"

fun isObjectExpression :: "node \<Rightarrow> bool" where
  "isObjectExpression (ObjectExpression ps) = True"
| "isObjectExpression n = False"

text \<open>The structure check on the converted object (its three \<^verbatim>\<open>throw\<close> statements).\<close>

definition validateStructure :: "json \<Rightarrow> error + json" where
  "validateStructure obj =
     (case getMember obj ''project_id'' of
        Inl e \<Rightarrow> Inl e
      | Inr pid \<Rightarrow>
        if falsy pid \<or> typeofMember pid \<noteq> ''string''
        then Inl (Error ''Schema must have a project_id string field'' None)
        else (case getMember obj ''version'' of
          Inl e \<Rightarrow> Inl e
        | Inr ver \<Rightarrow>
          if typeofMember ver \<noteq> ''number''
          then Inl (Error ''Schema must have a version number field'' None)
          else (case getMember obj ''tables'' of
            Inl e \<Rightarrow> Inl e
          | Inr tabs \<Rightarrow>
            if falsy tabs \<or> typeofMember tabs \<noteq> ''object''
            then Inl (Error ''Schema must have a tables object field'' None)
            else Inr obj)))"

text \<open>The body of the \<^verbatim>\<open>try\<close> block.\<close>

definition extractSchemaBody :: "Parsers \<Rightarrow> string \<Rightarrow> error + json" where
  "extractSchemaBody P content =
     (case parse P content of
        Inl e \<Rightarrow> Inl e
      | Inr body \<Rightarrow>
        (case findSchemaNode body of
           None \<Rightarrow> Inl (Error ''Schema export must be an object'' None)
         | Some schemaNode \<Rightarrow>
           if \<not> isObjectExpression schemaNode
           then Inl (Error ''Schema export must be an object'' None)
           else (case convertAstToObject schemaNode of
                   Inl e \<Rightarrow> Inl e
                 | Inr obj \<Rightarrow> validateStructure obj)))"

definition extractSchemaFromCode :: "Parsers \<Rightarrow> string \<Rightarrow> error + json" where
  "extractSchemaFromCode P content =
     (case extractSchemaBody P content of
        Inl e \<Rightarrow> Inl (Error (''Error parsing schema: '' @ messageOr e ''Unknown error'') None)
      | Inr obj \<Rightarrow> Inr obj)"

subsection \<open>readSchemaFromConfig\<close>

text \<open>
  What the accessor returns at run time: the parsed value as it is (the code assigns it to
  a variable of type Schema without a check), the value of its \<^verbatim>\<open>project_id\<close> member
  and the path of the file.
\<close>

record RawSchemaFileResult =
  schema :: json
  projectId :: json
  filePath :: string

definition possibleFiles :: "string list" where
  "possibleFiles = [''basic.config.ts'', ''basic.config.js'', ''basic.config.json'']"

text \<open>\<^verbatim>\<open>fs.access\<close> followed by \<^verbatim>\<open>fs.readFile\<close>.\<close>

definition readFile :: "fs \<Rightarrow> string \<Rightarrow> error + string" where
  "readFile fs path =
     (case fs path of
        None \<Rightarrow> Inl (Error (''ENOENT: no such file or directory, access '' @ [CHR 0x27] @ path @ [CHR 0x27])
                      (Some ''ENOENT''))
      | Some content \<Rightarrow> Inr content)"

text \<open>The \<^verbatim>\<open>try\<close> block of the loop body, for one file name.\<close>

definition readOneConfig :: "Parsers \<Rightarrow> fs \<Rightarrow> string \<Rightarrow> string \<Rightarrow> error + RawSchemaFileResult" where
  "readOneConfig P fs filename path =
     (case readFile fs path of
        Inl e \<Rightarrow> Inl e
      | Inr content \<Rightarrow>
        (case (if endsWith filename ''.json'' then JSON_parse P content
               else extractSchemaFromCode P content) of
           Inl e \<Rightarrow> Inl e
         | Inr obj \<Rightarrow>
           (case getMember obj ''project_id'' of
              Inl e \<Rightarrow> Inl e
            | Inr None \<Rightarrow> Inl (Error ''No project_id found in schema'' None)
            | Inr (Some pid) \<Rightarrow>
              if \<not> truthy pid then Inl (Error ''No project_id found in schema'' None)
              else Inr \<lparr> RawSchemaFileResult.schema = obj, projectId = pid, filePath = path \<rparr>)))"

fun readConfigFiles :: "Parsers \<Rightarrow> string \<Rightarrow> fs \<Rightarrow> string list \<Rightarrow> error + RawSchemaFileResult option" where
  "readConfigFiles P targetDir fs [] = Inr None"
| "readConfigFiles P targetDir fs (filename # rest) =
     (case readOneConfig P fs filename (pathJoin targetDir filename) of
        Inr result \<Rightarrow> Inr (Some result)
      | Inl e \<Rightarrow>
        if errorCode e = Some ''ENOENT'' then readConfigFiles P targetDir fs rest
        else Inl (Error (''Error reading '' @ filename @ '': '' @ messageOr e ''Unknown error'') None))"

definition readSchemaFromConfig :: "Parsers \<Rightarrow> string \<Rightarrow> fs \<Rightarrow> error + RawSchemaFileResult option" where
  "readSchemaFromConfig P targetDir fs = readConfigFiles P targetDir fs possibleFiles"

subsection \<open>JSON.stringify(value, null, 2)\<close>

text \<open>
  The serialisation of a value with a gap of two spaces, as ECMAScript defines it. A
  string is put between double quotes, with the double quote and the backslash escaped by
  a backslash, and a control character written as backslash and one of \<open>b t n f r\<close> or as
  backslash, \<open>u00\<close> and two hexadecimal digits. An empty array or object is \<^verbatim>\<open>[]\<close> or
  \<^verbatim>\<open>{}\<close>; the others put each element or member on a line of its own, indented by two
  more spaces than the enclosing value.
\<close>

definition hexDigit :: "nat \<Rightarrow> char" where
  "hexDigit n = (if n < 10 then char_of (48 + n) else char_of (87 + n))"

definition quoteChar :: "char \<Rightarrow> string" where
  "quoteChar c =
     (if c = CHR 0x22 then [CHR 0x5C, CHR 0x22]
      else if c = CHR 0x5C then [CHR 0x5C, CHR 0x5C]
      else if c = CHR 0x08 then [CHR 0x5C, CHR ''b'']
      else if c = CHR 0x09 then [CHR 0x5C, CHR ''t'']
      else if c = CHR 0x0A then [CHR 0x5C, CHR ''n'']
      else if c = CHR 0x0C then [CHR 0x5C, CHR ''f'']
      else if c = CHR 0x0D then [CHR 0x5C, CHR ''r'']
      else if (of_char c :: nat) < 32
      then [CHR 0x5C, CHR ''u'', CHR ''0'', CHR ''0'',
            hexDigit ((of_char c :: nat) div 16), hexDigit ((of_char c :: nat) mod 16)]
      else [c])"

definition quoteJSONString :: "string \<Rightarrow> string" where
  "quoteJSONString s = [CHR 0x22] @ concat (map quoteChar s) @ [CHR 0x22]"

fun joinWith :: "string \<Rightarrow> string list \<Rightarrow> string" where
  "joinWith sep [] = []"
| "joinWith sep [x] = x"
| "joinWith sep (x # y # ys) = x @ sep @ joinWith sep (y # ys)"

fun serializeJSON :: "string \<Rightarrow> json \<Rightarrow> string"
  and serializeElements :: "string \<Rightarrow> json list \<Rightarrow> string list"
  and serializeMembers :: "string \<Rightarrow> (string \<times> json) list \<Rightarrow> string list" where
  "serializeJSON indent JNull = ''null''"
| "serializeJSON indent (JBool b) = (if b then ''true'' else ''false'')"
| "serializeJSON indent (JNum n) = showInt n"
| "serializeJSON indent (JStr s) = quoteJSONString s"
| "serializeJSON indent (JArr vs) =
     (if vs = [] then ''[]''
      else ''['' @ [CHR 0x0A] @ (indent @ ''  '') @
           joinWith ('','' @ [CHR 0x0A] @ (indent @ ''  '')) (serializeElements (indent @ ''  '') vs) @
           [CHR 0x0A] @ indent @ '']'')"
| "serializeJSON indent (JObj kvs) =
     (if kvs = [] then ''{}''
      else ''{'' @ [CHR 0x0A] @ (indent @ ''  '') @
           joinWith ('','' @ [CHR 0x0A] @ (indent @ ''  '')) (serializeMembers (indent @ ''  '') kvs) @
           [CHR 0x0A] @ indent @ ''}'')"
| "serializeElements indent [] = []"
| "serializeElements indent (v # vs) = serializeJSON indent v # serializeElements indent vs"
| "serializeMembers indent [] = []"
| "serializeMembers indent ((k, v) # kvs) =
     (quoteJSONString k @ '': '' @ serializeJSON indent v) # serializeMembers indent kvs"

definition JSON_stringify :: "json \<Rightarrow> string" where
  "JSON_stringify v = serializeJSON [] v"

subsection \<open>The regular expressions of updateSchemaInCode\<close>

text \<open>
  The three patterns are sequences of single characters and of character classes under a
  greedy \<^verbatim>\<open>*\<close> or \<^verbatim>\<open>+\<close>, in three capture groups. A pattern is the list of its items,
  each with the number of its group; a match is the list of the characters it consumed,
  each with the group that consumed it. The matcher tries the longer repetition first and
  gives characters back one at a time, as a backtracking matcher does.
\<close>

datatype item = Chr char | Star "char \<Rightarrow> bool" | Plus "char \<Rightarrow> bool"

type_synonym pattern = "(nat \<times> item) list"

fun matchHere :: "pattern \<Rightarrow> string \<Rightarrow> (nat \<times> char) list option" where
  "matchHere [] s = Some []"
| "matchHere ((g, Chr c) # items) [] = None"
| "matchHere ((g, Chr c) # items) (x # xs) =
     (if x = c then map_option ((#) (g, x)) (matchHere items xs) else None)"
| "matchHere ((g, Star p) # items) [] = matchHere items []"
| "matchHere ((g, Star p) # items) (x # xs) =
     (if p x
      then (case matchHere ((g, Star p) # items) xs of
              Some m \<Rightarrow> Some ((g, x) # m)
            | None \<Rightarrow> matchHere items (x # xs))
      else matchHere items (x # xs))"
| "matchHere ((g, Plus p) # items) [] = None"
| "matchHere ((g, Plus p) # items) (x # xs) =
     (if p x then map_option ((#) (g, x)) (matchHere ((g, Star p) # items) xs) else None)"

definition matched :: "(nat \<times> char) list \<Rightarrow> string" where
  "matched m = map snd m"

definition groupText :: "nat \<Rightarrow> (nat \<times> char) list \<Rightarrow> string" where
  "groupText g m = map snd (filter (\<lambda>gc. fst gc = g) m)"

text \<open>The captures of the three groups.\<close>

definition captures :: "(nat \<times> char) list \<Rightarrow> string list" where
  "captures m = [groupText 1 m, groupText 2 m, groupText 3 m]"

text \<open>\<^verbatim>\<open>\s\<close> and \<^verbatim>\<open>[^;]\<close> on characters below 256.\<close>

definition isSpace :: "char \<Rightarrow> bool" where
  "isSpace c = (c \<in> {CHR 0x09, CHR 0x0A, CHR 0x0B, CHR 0x0C, CHR 0x0D, CHR 0x20, CHR 0xA0})"

definition notSemicolon :: "char \<Rightarrow> bool" where
  "notSemicolon c = (c \<noteq> CHR '';'')"

definition lit :: "nat \<Rightarrow> string \<Rightarrow> pattern" where
  "lit g s = map (\<lambda>c. (g, Chr c)) s"

text \<open>\<^verbatim>\<open>/(schema\s*=\s*)({[^;]+})(;)/g\<close>\<close>

definition schemaPattern :: pattern where
  "schemaPattern =
     lit 1 ''schema'' @ [(1, Star isSpace), (1, Chr (CHR ''='')), (1, Star isSpace)] @
     [(2, Chr (CHR ''{'')), (2, Plus notSemicolon), (2, Chr (CHR ''}''))] @
     [(3, Chr (CHR '';''))]"

text \<open>\<^verbatim>\<open>/(const\s+schema\s*=\s*)({[^;]+})(;)/g\<close>\<close>

definition constSchemaPattern :: pattern where
  "constSchemaPattern = lit 1 ''const'' @ [(1, Plus isSpace)] @ schemaPattern"

text \<open>\<^verbatim>\<open>/(export\s+const\s+schema\s*=\s*)({[^;]+})(;)/g\<close>\<close>

definition exportConstSchemaPattern :: pattern where
  "exportConstSchemaPattern = lit 1 ''export'' @ [(1, Plus isSpace)] @ constSchemaPattern"

text \<open>\<^verbatim>\<open>pattern.test(content)\<close> on a fresh expression: is there a match at some position.\<close>

fun test :: "pattern \<Rightarrow> string \<Rightarrow> bool" where
  "test pat [] = (matchHere pat [] \<noteq> None)"
| "test pat (x # xs) = (matchHere pat (x # xs) \<noteq> None \<or> test pat xs)"

text \<open>
  The expansion of a replacement string for one match (GetSubstitution of ECMAScript,
  without named groups): \<^verbatim>\<open>$$\<close> is a dollar sign, \<^verbatim>\<open>$&\<close> the match, \<^verbatim>\<open>$`\<close> the text
  preceding it, \<^verbatim>\<open>$'\<close> the text following it, \<^verbatim>\<open>$n\<close> and \<^verbatim>\<open>$nn\<close> the capture of that number
  when there is one; every other character stands for itself.
\<close>

definition isDigit :: "char \<Rightarrow> bool" where
  "isDigit c = (48 \<le> (of_char c :: nat) \<and> (of_char c :: nat) \<le> 57)"

definition digitValue :: "char \<Rightarrow> nat" where
  "digitValue c = (of_char c :: nat) - 48"

fun expandTemplate :: "string \<Rightarrow> string \<Rightarrow> string \<Rightarrow> string list \<Rightarrow> string \<Rightarrow> string" where
  "expandTemplate mt preceding following caps [] = []"
| "expandTemplate mt preceding following caps [c] = [c]"
| "expandTemplate mt preceding following caps (c # d # rest) =
     (if c \<noteq> CHR ''$'' then c # expandTemplate mt preceding following caps (d # rest)
      else if d = CHR ''$'' then CHR ''$'' # expandTemplate mt preceding following caps rest
      else if d = CHR ''&'' then mt @ expandTemplate mt preceding following caps rest
      else if d = CHR 0x60 then preceding @ expandTemplate mt preceding following caps rest
      else if d = CHR 0x27 then following @ expandTemplate mt preceding following caps rest
      else if isDigit d then
        (case rest of
           [] \<Rightarrow>
             (if 1 \<le> digitValue d \<and> digitValue d \<le> length caps
              then caps ! (digitValue d - 1)
              else [c, d])
         | e # rest' \<Rightarrow>
             if isDigit e \<and> 10 * digitValue d + digitValue e \<le> length caps
             then (if 1 \<le> 10 * digitValue d + digitValue e
                   then caps ! (10 * digitValue d + digitValue e - 1) @
                        expandTemplate mt preceding following caps rest'
                   else [c, d, e] @ expandTemplate mt preceding following caps rest')
             else (if 1 \<le> digitValue d \<and> digitValue d \<le> length caps
                   then caps ! (digitValue d - 1) @ expandTemplate mt preceding following caps (e # rest')
                   else [c, d] @ expandTemplate mt preceding following caps (e # rest')))
      else c # expandTemplate mt preceding following caps (d # rest))"

text \<open>
  \<^verbatim>\<open>content.replace(pattern, template)\<close> with the flag \<^verbatim>\<open>g\<close>: the matches are found
  from left to right, each search starting where the previous match ended (one character
  further after an empty match); the text between the matches is copied. The first
  argument is the text already passed.
\<close>

function replaceFrom :: "pattern \<Rightarrow> string \<Rightarrow> string \<Rightarrow> string \<Rightarrow> string" where
  "replaceFrom pat template preceding [] =
     (case matchHere pat [] of
        None \<Rightarrow> []
      | Some m \<Rightarrow> expandTemplate (matched m) preceding [] (captures m) template)"
| "replaceFrom pat template preceding (x # xs) =
     (case matchHere pat (x # xs) of
        None \<Rightarrow> x # replaceFrom pat template (preceding @ [x]) xs
      | Some m \<Rightarrow>
          if matched m = []
          then expandTemplate [] preceding (x # xs) (captures m) template @
               x # replaceFrom pat template (preceding @ [x]) xs
          else expandTemplate (matched m) preceding (drop (length (matched m)) (x # xs)) (captures m) template @
               replaceFrom pat template (preceding @ matched m) (drop (length (matched m)) (x # xs)))"
  by pat_completeness auto
termination
  by (relation "measure (\<lambda>(pat, template, preceding, s). length s)") auto

definition replaceAll :: "pattern \<Rightarrow> string \<Rightarrow> string \<Rightarrow> string" where
  "replaceAll pat template content = replaceFrom pat template [] content"

subsection \<open>updateSchemaInCode, generateConfigContent and saveSchemaToConfig\<close>

definition patterns :: "pattern list" where
  "patterns = [constSchemaPattern, exportConstSchemaPattern, schemaPattern]"

text \<open>The loop over the patterns: the first one that tests true does the replacement.\<close>

fun updateWith :: "pattern list \<Rightarrow> string \<Rightarrow> string \<Rightarrow> error + string" where
  "updateWith [] content schemaStr = Inl (Error ''Could not update schema in config file'' None)"
| "updateWith (pat # pats) content schemaStr =
     (if test pat content then Inr (replaceAll pat (''$1'' @ schemaStr @ ''$3'') content)
      else updateWith pats content schemaStr)"

definition updateSchemaInCode :: "string \<Rightarrow> json \<Rightarrow> error + string" where
  "updateSchemaInCode content newSchema =
     (let schemaStr = JSON_stringify newSchema in updateWith patterns content schemaStr)"

definition generateConfigContent :: "json \<Rightarrow> string" where
  "generateConfigContent sch =
     ''// Basic Project Configuration'' @ [CHR 0x0A] @
     ''// see the docs for more info: https://docs.basic.tech'' @ [CHR 0x0A] @
     [CHR 0x0A] @
     ''const schema = '' @ JSON_stringify sch @ '';'' @ [CHR 0x0A] @
     [CHR 0x0A] @
     ''export default schema;'' @ [CHR 0x0A]"



text \<open>The result is the path of the written file and the file system after the write.\<close>

definition saveSchemaToConfig :: "Parsers \<Rightarrow> json \<Rightarrow> string \<Rightarrow> fs \<Rightarrow> error + (string \<times> fs)" where
  "saveSchemaToConfig P sch targetDir fs =
     (case readSchemaFromConfig P targetDir fs of
        Inl e \<Rightarrow> Inl e
      | Inr (Some existing) \<Rightarrow>
          (case readFile fs (RawSchemaFileResult.filePath existing) of
             Inl e \<Rightarrow> Inl e
           | Inr content \<Rightarrow>
               (case updateSchemaInCode content sch of
                  Inl e \<Rightarrow> Inl e
                | Inr updatedContent \<Rightarrow>
                    Inr (RawSchemaFileResult.filePath existing,
                         fs (RawSchemaFileResult.filePath existing \<mapsto> updatedContent))))
      | Inr None \<Rightarrow>
          Inr (pathJoin targetDir ''basic.config.ts'',
               fs (pathJoin targetDir ''basic.config.ts'' \<mapsto> generateConfigContent sch)))"


section \<open>The three flows on one pair of schemas\<close>

text \<open>
  Each command compares the versions of the local and the remote schema and hands the
  verdict to its analyzer (the last two lines of \<^verbatim>\<open>checkStatus\<close>, \<^verbatim>\<open>checkPushStatus\<close>
  and \<^verbatim>\<open>checkPullStatus\<close>).
\<close>

definition statusFlow :: "SchemaFileResult \<Rightarrow> Schema \<Rightarrow> ApiClient \<Rightarrow> api_call list \<times> StatusResult" where
  "statusFlow localConfig remoteSchema api =
     analyzeStatus localConfig remoteSchema
       (compareVersions (SchemaFileResult.schema localConfig) remoteSchema) api"

definition pushFlow :: "SchemaFileResult \<Rightarrow> Schema \<Rightarrow> ApiClient \<Rightarrow> api_call list \<times> PushStatusResult" where
  "pushFlow localConfig remoteSchema api =
     analyzePushAction localConfig remoteSchema
       (compareVersions (SchemaFileResult.schema localConfig) remoteSchema) api"

definition pullFlow :: "SchemaFileResult \<Rightarrow> Schema \<Rightarrow> ApiClient \<Rightarrow> api_call list \<times> PullStatusResult" where
  "pullFlow localConfig remoteSchema api =
     analyzePullAction localConfig remoteSchema
       (compareVersions (SchemaFileResult.schema localConfig) remoteSchema) api"

section \<open>Concrete inputs used in the examples\<close>

definition schemaAt :: "string \<Rightarrow> int \<Rightarrow> json \<Rightarrow> Schema" where
  "schemaAt pid v tabs = \<lparr> project_id = pid, version = Some v, tables = tabs \<rparr>"

definition localAt :: "string \<Rightarrow> int \<Rightarrow> json \<Rightarrow> SchemaFileResult" where
  "localAt pid v tabs =
     \<lparr> SchemaFileResult.schema = schemaAt pid v tabs,
       projectId = pid,
       filePath = ''/work/basic.config.ts'' \<rparr>"

text \<open>A gateway that gives the same answer to every validation and to every comparison,
  has no remote schema and accepts every push.\<close>

definition fixedApi :: "error + ValidationResult \<Rightarrow> error + CompareResult \<Rightarrow> ApiClient" where
  "fixedApi v c =
     \<lparr> getProjectSchema = (\<lambda>pid. Inr None),
       pushProjectSchema = (\<lambda>pid s. Inr ()),
       validateSchema = (\<lambda>s. v),
       compareSchema = (\<lambda>s. c) \<rparr>"

definition validYes :: "error + ValidationResult" where
  "validYes = Inr \<lparr> ValidationResult.valid = True, errors = None \<rparr>"


definition sameContent :: "error + CompareResult" where
  "sameContent = Inr \<lparr> CompareResult.valid = True \<rparr>"

definition differentContent :: "error + CompareResult" where
  "differentContent = Inr \<lparr> CompareResult.valid = False \<rparr>"

definition networkFailure :: "error + 'a" where
  "networkFailure = Inl (Error ''Network connection failed'' None)"

text \<open>The tables of the two schemas of the spec's concrete scenario.\<close>

definition tablesA :: json where
  "tablesA = JObj [(''a'', JObj [(''type'', JStr ''collection''), (''fields'', JObj [])])]"

definition tablesAx :: json where
  "tablesAx = JObj [(''a'', JObj [(''type'', JStr ''collection''),
     (''fields'', JObj [(''x'', JObj [(''type'', JStr ''string'')])])])]"

text \<open>Key presses.\<close>

definition noKey :: Key where
  "noKey = \<lparr> upArrow = False, downArrow = False, return = False, escape = False \<rparr>"


definition keyReturn :: Key where
  "keyReturn = noKey \<lparr> return := True \<rparr>"

definition keyEscape :: Key where
  "keyEscape = noKey \<lparr> escape := True \<rparr>"

text \<open>
  An environment that is online and logged in, whose local accessor finds the given config
  in every file system and whose save writes the version of the saved schema into the
  config file, and whose gateway holds the given remote schema.
\<close>

definition exampleToken :: Token where
  "exampleToken =
     \<lparr> access_token = ''t'', refresh_token = ''r'', expires_at = 0, token_type = ''Bearer'' \<rparr>"

definition exampleEnv ::
  "SchemaFileResult \<Rightarrow> Schema option \<Rightarrow> error + ValidationResult \<Rightarrow> error + CompareResult \<Rightarrow> Env" where
  "exampleEnv lc remote v c =
     \<lparr> isOnline = Inr True,
       getToken = Inr (Some exampleToken),
       apiClient = (fixedApi v c) \<lparr> getProjectSchema := (\<lambda>pid. Inr remote) \<rparr>,
       readSchemaFromConfig = (\<lambda>fs. Inr (Some lc)),
       saveSchemaToConfig =
         (\<lambda>s fs. Inr (SchemaFileResult.filePath lc,
                       fs (SchemaFileResult.filePath lc \<mapsto> showInt (versionOr0 s)))) \<rparr>"

definition exampleFiles :: fs where
  "exampleFiles = [''/work/basic.config.ts'' \<mapsto> ''export const schema = {};'']"

subsection \<open>Concrete inputs for the local schema accessor\<close>

text \<open>
  The syntax tree of the text \<^verbatim>\<open>JSON.stringify\<close> writes for a value, read as a
  JavaScript expression: every member name is a string literal; a negative number is not a
  numeric literal but a unary expression.
\<close>

fun literalOf :: "json \<Rightarrow> node"
  and literalsOf :: "json list \<Rightarrow> node option list"
  and propertiesOf :: "(string \<times> json) list \<Rightarrow> property list" where
  "literalOf JNull = NullLiteral"
| "literalOf (JBool b) = BooleanLiteral b"
| "literalOf (JNum n) = (if 0 \<le> n then NumericLiteral n else OtherNode ''UnaryExpression'')"
| "literalOf (JStr s) = StringLiteral s"
| "literalOf (JArr vs) = ArrayExpression (literalsOf vs)"
| "literalOf (JObj kvs) = ObjectExpression (propertiesOf kvs)"
| "literalsOf [] = []"
| "literalsOf (v # vs) = Some (literalOf v) # literalsOf vs"
| "propertiesOf [] = []"
| "propertiesOf ((k, v) # kvs) = ObjectProperty (StringLiteral k) (literalOf v) # propertiesOf kvs"

text \<open>The syntax tree of the module that generateConfigContent writes for a value:
  \<^verbatim>\<open>const schema = <literal>; export default schema;\<close>\<close>

definition moduleOf :: "json \<Rightarrow> statement list" where
  "moduleOf v =
     [VariableDeclaration (VariableDeclarator (Identifier ''schema'') (Some (literalOf v))) [],
      ExportDefaultDeclaration (Identifier ''schema'')]"


text \<open>A schema object as lib/types.ts declares it, with the given further members.\<close>

definition schemaObject :: "string \<Rightarrow> json \<Rightarrow> json \<Rightarrow> json" where
  "schemaObject pid ver tabs =
     JObj [(''project_id'', JStr pid), (''version'', ver), (''tables'', tabs)]"

definition workDir :: string where
  "workDir = ''/work''"

text \<open>Two schemas, and one whose version is the string \<^verbatim>\<open>"1"\<close>.\<close>

definition schemaV1 :: json where
  "schemaV1 = schemaObject ''p1'' (JNum 1) (JObj [])"

definition schemaV2 :: json where
  "schemaV2 = schemaObject ''p1'' (JNum 2) tablesA"

definition schemaStringVersion :: json where
  "schemaStringVersion = schemaObject ''p1'' (JStr ''1'') (JObj [])"

text \<open>
  Parsers that know the texts of the examples: \<^verbatim>\<open>JSON.parse\<close> returns the value whose
  JSON text it is given, the module parser returns the tree of the module that
  generateConfigContent writes; on every other text they throw a syntax error.
\<close>

definition syntaxError :: error where
  "syntaxError = Error ''Unexpected token'' None"

definition exampleParsers :: Parsers where
  "exampleParsers =
     \<lparr> JSON_parse = (\<lambda>text.
         if text = JSON_stringify schemaV1 then Inr schemaV1
         else if text = JSON_stringify schemaV2 then Inr schemaV2
         else if text = JSON_stringify schemaStringVersion then Inr schemaStringVersion
         else Inl syntaxError),
       parse = (\<lambda>text.
         if text = generateConfigContent schemaV1 then Inr (moduleOf schemaV1)
         else if text = generateConfigContent schemaV2 then Inr (moduleOf schemaV2)
         else if text = generateConfigContent schemaStringVersion then Inr (moduleOf schemaStringVersion)
         else Inl syntaxError) \<rparr>"

text \<open>Directories holding one config file.\<close>

definition jsonConfig :: "json \<Rightarrow> fs" where
  "jsonConfig v = [pathJoin workDir ''basic.config.json'' \<mapsto> JSON_stringify v]"

definition tsConfig :: "json \<Rightarrow> fs" where
  "tsConfig v = [pathJoin workDir ''basic.config.ts'' \<mapsto> generateConfigContent v]"


section \<open>Properties\<close>

subsection \<open>Auxiliary facts about the comparator and the analyzers\<close>

lemma versionOr0_eq: "versionOr0 s = (case version s of None \<Rightarrow> 0 | Some v \<Rightarrow> v)"
  by (simp add: versionOr0_def split: option.splits)

lemma cmp_status_cases:
  "Comparison.status (compareVersions l r) =
     (if versionOr0 l = versionOr0 r then CmpEqual
      else if versionOr0 l > versionOr0 r then CmpAhead else CmpBehind)"
  by (simp add: compareVersions_def Let_def)

lemma cmp_versions [simp]:
  "Comparison.localVersion (compareVersions l r) = versionOr0 l"
  "Comparison.remoteVersion (compareVersions l r) = versionOr0 r"
  by (simp_all add: compareVersions_def Let_def)

lemma versionOr0_schemaAt [simp]: "versionOr0 (schemaAt p v t) = v"
  by (simp add: versionOr0_def schemaAt_def)

lemma schema_localAt [simp]: "SchemaFileResult.schema (localAt p v t) = schemaAt p v t"
  by (simp add: localAt_def)

lemma fixedApi_answers [simp]:
  "validateSchema (fixedApi v c) s = v"
  "compareSchema (fixedApi v c) s = c"
  "getProjectSchema (fixedApi v c) pid = Inr None"
  "pushProjectSchema (fixedApi v c) pid s = Inr ()"
  by (simp_all add: fixedApi_def)

text \<open>The calls each analyzer makes, by the verdict of the comparator.\<close>

lemma push_calls:
  "fst (analyzePushAction lc r c api) =
    (case Comparison.status c of
       CmpAhead \<Rightarrow> [ValidateSchema (SchemaFileResult.schema lc)]
     | CmpEqual \<Rightarrow> if Comparison.localVersion c = 0 \<and> Comparison.remoteVersion c = 0
                   then [ValidateSchema (SchemaFileResult.schema lc)]
                   else [CompareSchema (SchemaFileResult.schema lc)]
     | CmpBehind \<Rightarrow> []
     | CmpCurrent \<Rightarrow> [])"
  by (simp add: analyzePushAction_def Let_def split: CompareStatus.splits)

lemma status_calls:
  "fst (analyzeStatus lc r c api) =
    (case Comparison.status c of
       CmpAhead \<Rightarrow> [ValidateSchema (SchemaFileResult.schema lc)]
     | CmpEqual \<Rightarrow> if Comparison.localVersion c = 0 \<and> Comparison.remoteVersion c = 0
                   then [ValidateSchema (SchemaFileResult.schema lc)]
                   else [CompareSchema (SchemaFileResult.schema lc)]
     | CmpBehind \<Rightarrow> []
     | CmpCurrent \<Rightarrow> [])"
  by (simp add: analyzeStatus_def Let_def split: CompareStatus.splits)

lemma pull_calls:
  "fst (analyzePullAction lc r c api) =
    (case Comparison.status c of
       CmpEqual \<Rightarrow> if Comparison.localVersion c = 0 \<and> Comparison.remoteVersion c = 0
                   then []
                   else [CompareSchema (SchemaFileResult.schema lc)]
     | CmpAhead \<Rightarrow> []
     | CmpBehind \<Rightarrow> []
     | CmpCurrent \<Rightarrow> [])"
  by (simp add: analyzePullAction_def Let_def split: CompareStatus.splits)

text \<open>The status each analyzer returns, by the verdict and the collaborators' answers.\<close>

lemma push_status:
  "PushStatusResult.status (snd (analyzePushAction lc r c api)) =
    (case Comparison.status c of
       CmpAhead \<Rightarrow>
         (case validateSchema api (SchemaFileResult.schema lc) of
            Inr v \<Rightarrow> if \<not> ValidationResult.valid v \<and> errors v \<noteq> None then Invalid else Ahead
          | Inl e \<Rightarrow> Invalid)
     | CmpEqual \<Rightarrow>
         if Comparison.localVersion c = 0 \<and> Comparison.remoteVersion c = 0 then Invalid
         else (case compareSchema api (SchemaFileResult.schema lc) of
                 Inr cr \<Rightarrow> if CompareResult.valid cr then Current else Invalid
               | Inl e \<Rightarrow> Current)
     | CmpBehind \<Rightarrow> Behind
     | CmpCurrent \<Rightarrow> Current)"
  by (simp add: analyzePushAction_def pushBaseResult_def Let_def split: CompareStatus.splits sum.splits)

lemma status_status:
  "StatusResult.status (snd (analyzeStatus lc r c api)) =
    (case Comparison.status c of
       CmpAhead \<Rightarrow>
         (case validateSchema api (SchemaFileResult.schema lc) of
            Inr v \<Rightarrow> if \<not> ValidationResult.valid v \<and> errors v \<noteq> None then Invalid else Ahead
          | Inl e \<Rightarrow> Invalid)
     | CmpEqual \<Rightarrow>
         if Comparison.localVersion c = 0 \<and> Comparison.remoteVersion c = 0
         then (case validateSchema api (SchemaFileResult.schema lc) of
                 Inr v \<Rightarrow> if \<not> ValidationResult.valid v \<and> errors v \<noteq> None then Invalid else Ahead
               | Inl e \<Rightarrow> Invalid)
         else (case compareSchema api (SchemaFileResult.schema lc) of
                 Inr cr \<Rightarrow> if CompareResult.valid cr then Current else Conflict
               | Inl e \<Rightarrow> Invalid)
     | CmpBehind \<Rightarrow> Behind
     | CmpCurrent \<Rightarrow> Invalid)"
  by (simp add: analyzeStatus_def statusBaseResult_def Let_def split: CompareStatus.splits sum.splits)

lemma pull_status:
  "PullStatusResult.status (snd (analyzePullAction lc r c api)) =
    (case Comparison.status c of
       CmpEqual \<Rightarrow>
         if Comparison.localVersion c = 0 \<and> Comparison.remoteVersion c = 0 then Current
         else (case compareSchema api (SchemaFileResult.schema lc) of
                 Inr cr \<Rightarrow> if CompareResult.valid cr then Current else Conflict
               | Inl e \<Rightarrow> Current)
     | CmpAhead \<Rightarrow> Ahead
     | CmpBehind \<Rightarrow> Behind
     | CmpCurrent \<Rightarrow> Current)"
  by (simp add: analyzePullAction_def pullBaseResult_def Let_def split: CompareStatus.splits sum.splits)

text \<open>When each analyzer asks for confirmation.\<close>

lemma push_needsConfirmation:
  "PushStatusResult.needsConfirmation (snd (analyzePushAction lc r c api)) =
    (Comparison.status c = CmpAhead \<and>
     (case validateSchema api (SchemaFileResult.schema lc) of
        Inr v \<Rightarrow> \<not> (\<not> ValidationResult.valid v \<and> errors v \<noteq> None)
      | Inl e \<Rightarrow> False))"
  by (simp add: analyzePushAction_def pushBaseResult_def Let_def split: CompareStatus.splits sum.splits)


text \<open>The message lines of the branches the properties below talk about.\<close>

lemma push_message_bump:
  "Comparison.status c = CmpEqual \<Longrightarrow>
   Comparison.localVersion c = 0 \<Longrightarrow> Comparison.remoteVersion c = 0 \<Longrightarrow>
   validateSchema api (SchemaFileResult.schema lc) = Inr v \<Longrightarrow>
   ValidationResult.valid v \<or> errors v = None \<Longrightarrow>
   snd (analyzePushAction lc r c api) =
     (pushBaseResult lc c Invalid)
       \<lparr> PushStatusResult.message := [''Schema changes are valid!'',
           ''Please increment your version number to 1'',
           ''and run 'basic push' if you are ready to publish your changes.''] \<rparr>"
  by (auto simp add: analyzePushAction_def Let_def)

lemma status_message_bump:
  "Comparison.status c = CmpEqual \<Longrightarrow>
   Comparison.localVersion c = 0 \<Longrightarrow> Comparison.remoteVersion c = 0 \<Longrightarrow>
   validateSchema api (SchemaFileResult.schema lc) = Inr v \<Longrightarrow>
   ValidationResult.valid v \<or> errors v = None \<Longrightarrow>
   StatusResult.message (snd (analyzeStatus lc r c api)) =
     [''Project ID: '' @ SchemaFileResult.projectId lc,
      '''',
      ''Schema changes are valid!'',
      ''Please increment your version number to 1'',
      ''and run 'basic push' if you are ready to publish your changes.'']"
  by (auto simp add: analyzeStatus_def statusBaseResult_def Let_def)

lemma push_message_unverified:
  "Comparison.status c = CmpEqual \<Longrightarrow>
   \<not> (Comparison.localVersion c = 0 \<and> Comparison.remoteVersion c = 0) \<Longrightarrow>
   compareSchema api (SchemaFileResult.schema lc) = Inl e \<Longrightarrow>
   PushStatusResult.message (snd (analyzePushAction lc r c api)) =
     [''Schema appears to be up to date.'',
      ''(Unable to verify schema content - assuming current)'']"
  by (auto simp add: analyzePushAction_def pushBaseResult_def Let_def)

lemma pull_message_unverified:
  "Comparison.status c = CmpEqual \<Longrightarrow>
   \<not> (Comparison.localVersion c = 0 \<and> Comparison.remoteVersion c = 0) \<Longrightarrow>
   compareSchema api (SchemaFileResult.schema lc) = Inl e \<Longrightarrow>
   PullStatusResult.message (snd (analyzePullAction lc r c api)) =
     [''Schema is up to date!'', ''No pull needed.'',
      ''(Unable to verify schema content - assuming current)'']"
  by (auto simp add: analyzePullAction_def pullBaseResult_def Let_def)

lemma push_message_differs:
  "Comparison.status c = CmpEqual \<Longrightarrow>
   \<not> (Comparison.localVersion c = 0 \<and> Comparison.remoteVersion c = 0) \<Longrightarrow>
   compareSchema api (SchemaFileResult.schema lc) = Inr cr \<Longrightarrow> \<not> CompareResult.valid cr \<Longrightarrow>
   PushStatusResult.message (snd (analyzePushAction lc r c api)) =
     [''Your local schema differs from the remote schema.'',
      ''Please increment your version number before pushing changes.'']"
  by (auto simp add: analyzePushAction_def pushBaseResult_def Let_def)

subsection \<open>C7: the version comparator\<close>

text \<open>
  Claim C7. compareVersions is a total function without effects. With a missing version
  read as 0, it returns both version numbers and exactly one of the three verdicts
  \<open>ahead\<close>, \<open>behind\<close>, \<open>equal\<close> (never \<open>current\<close>): \<open>ahead\<close> exactly when the local
  version is greater, \<open>behind\<close> exactly when it is smaller, \<open>equal\<close> exactly when the two
  are the same. The model has no error result for it: the function has no \<^verbatim>\<open>throw\<close>.
\<close>

theorem compareVersions_total:
  "(let lv = (case version l of None \<Rightarrow> 0 | Some v \<Rightarrow> v);
        rv = (case version r of None \<Rightarrow> 0 | Some v \<Rightarrow> v);
        c = compareVersions l r
    in Comparison.localVersion c = lv \<and>
       Comparison.remoteVersion c = rv \<and>
       Comparison.status c \<noteq> CmpCurrent \<and>
       (Comparison.status c = CmpAhead \<longleftrightarrow> lv > rv) \<and>
       (Comparison.status c = CmpBehind \<longleftrightarrow> lv < rv) \<and>
       (Comparison.status c = CmpEqual \<longleftrightarrow> lv = rv))"
  by (auto simp: compareVersions_def Let_def versionOr0_eq)

theorem compareVersions_total_witness:
  "Comparison.status (compareVersions (schemaAt ''p1'' 3 (JObj [])) (schemaAt ''p1'' 5 (JObj []))) = CmpBehind \<and>
   Comparison.localVersion (compareVersions (schemaAt ''p1'' 3 (JObj [])) (schemaAt ''p1'' 5 (JObj []))) = 3 \<and>
   Comparison.remoteVersion (compareVersions (schemaAt ''p1'' 3 (JObj [])) (schemaAt ''p1'' 5 (JObj []))) = 5"
  using compareVersions_total [of "schemaAt ''p1'' 3 (JObj [])" "schemaAt ''p1'' 5 (JObj [])"]
  by (simp add: schemaAt_def Let_def versionOr0_def)

subsection \<open>C1: the three flows on the same pair\<close>

text \<open>
  Claim C1, as stated, fails: with local and remote both at version 0 and a schema the
  validation accepts, the status flow answers \<open>ahead\<close>, the push flow \<open>invalid\<close> and the
  pull flow \<open>current\<close>.
\<close>

theorem flows_disagree_at_version_0:
  "StatusResult.status (snd (statusFlow (localAt ''p1'' 0 tablesA) (schemaAt ''p1'' 0 tablesA)
      (fixedApi validYes sameContent))) = Ahead \<and>
   PushStatusResult.status (snd (pushFlow (localAt ''p1'' 0 tablesA) (schemaAt ''p1'' 0 tablesA)
      (fixedApi validYes sameContent))) = Invalid \<and>
   PullStatusResult.status (snd (pullFlow (localAt ''p1'' 0 tablesA) (schemaAt ''p1'' 0 tablesA)
      (fixedApi validYes sameContent))) = Current"
  by (simp add: statusFlow_def pushFlow_def pullFlow_def status_status push_status pull_status
      cmp_status_cases validYes_def)

text \<open>
  Claim C1, amended. The three flows return the same status exactly in these cases: the
  local version is below the remote one (all \<open>behind\<close>); the local version is above the
  remote one and the validation call returns without reporting errors (all \<open>ahead\<close>); the
  versions are equal and not 0 and the content comparison answers that the contents match
  (all \<open>current\<close>).
\<close>

theorem flows_agree_iff:
  "(PushStatusResult.status (snd (pushFlow lc r api)) = StatusResult.status (snd (statusFlow lc r api)) \<and>
    PullStatusResult.status (snd (pullFlow lc r api)) = StatusResult.status (snd (statusFlow lc r api)))
   \<longleftrightarrow>
   (let lv = versionOr0 (SchemaFileResult.schema lc); rv = versionOr0 r in
      lv < rv \<or>
      (lv > rv \<and> (case validateSchema api (SchemaFileResult.schema lc) of
                     Inl e \<Rightarrow> False
                   | Inr v \<Rightarrow> ValidationResult.valid v \<or> errors v = None)) \<or>
      (lv = rv \<and> lv \<noteq> 0 \<and> (case compareSchema api (SchemaFileResult.schema lc) of
                     Inl e \<Rightarrow> False
                   | Inr c \<Rightarrow> CompareResult.valid c)))"
  by (auto simp: statusFlow_def pushFlow_def pullFlow_def status_status push_status pull_status
      cmp_status_cases Let_def split: sum.splits)

theorem flows_agree_iff_witness:
  "PushStatusResult.status (snd (pushFlow (localAt ''p1'' 3 tablesA) (schemaAt ''p1'' 5 tablesAx)
      (fixedApi validYes sameContent))) =
   StatusResult.status (snd (statusFlow (localAt ''p1'' 3 tablesA) (schemaAt ''p1'' 5 tablesAx)
      (fixedApi validYes sameContent))) \<and>
   PullStatusResult.status (snd (pullFlow (localAt ''p1'' 3 tablesA) (schemaAt ''p1'' 5 tablesAx)
      (fixedApi validYes sameContent))) =
   StatusResult.status (snd (statusFlow (localAt ''p1'' 3 tablesA) (schemaAt ''p1'' 5 tablesAx)
      (fixedApi validYes sameContent)))"
  using flows_agree_iff [of "localAt ''p1'' 3 tablesA" "schemaAt ''p1'' 5 tablesAx"
      "fixedApi validYes sameContent"]
  by simp

subsection \<open>C2: local and remote both at version 0\<close>

text \<open>
  Claim C2, as stated, fails for the pull flow: at version 0 on both sides it answers
  \<open>current\<close>, whatever the validation would say.
\<close>

theorem pull_current_at_version_0:
  "PullStatusResult.status (snd (pullFlow (localAt ''p1'' 0 tablesA) (schemaAt ''p1'' 0 (JObj []))
      (fixedApi validYes sameContent))) = Current"
  by (simp add: pullFlow_def pull_status cmp_status_cases)

text \<open>
  Claim C2, amended. With the local and the remote version both 0 and a validation call
  that reports the schema valid, the status flow answers \<open>ahead\<close> and the push flow
  \<open>invalid\<close> (without validation errors and without asking for a confirmation), each
  with the message line that tells the user to increment the version number to 1; neither
  answers \<open>current\<close>. The pull flow answers \<open>current\<close> and consults no collaborator.
\<close>

theorem version_0_outcomes:
  assumes "versionOr0 (SchemaFileResult.schema lc) = 0" and "versionOr0 r = 0"
    and "validateSchema api (SchemaFileResult.schema lc) = Inr v" and "ValidationResult.valid v"
  shows "StatusResult.status (snd (statusFlow lc r api)) = Ahead \<and>
         ''Please increment your version number to 1'' \<in> set (StatusResult.message (snd (statusFlow lc r api))) \<and>
         PushStatusResult.status (snd (pushFlow lc r api)) = Invalid \<and>
         ''Please increment your version number to 1'' \<in> set (PushStatusResult.message (snd (pushFlow lc r api))) \<and>
         PushStatusResult.validationErrors (snd (pushFlow lc r api)) = None \<and>
         \<not> PushStatusResult.needsConfirmation (snd (pushFlow lc r api)) \<and>
         PullStatusResult.status (snd (pullFlow lc r api)) = Current \<and>
         fst (pullFlow lc r api) = []"
proof -
  let ?c = "compareVersions (SchemaFileResult.schema lc) r"
  have c: "Comparison.status ?c = CmpEqual" "Comparison.localVersion ?c = 0"
    "Comparison.remoteVersion ?c = 0"
    using assms by (simp_all add: cmp_status_cases)
  have v: "ValidationResult.valid v \<or> errors v = None" using assms by simp
  have s1: "StatusResult.status (snd (statusFlow lc r api)) = Ahead"
    using assms c by (simp add: statusFlow_def status_status)
  have s2: "''Please increment your version number to 1'' \<in> set (StatusResult.message (snd (statusFlow lc r api)))"
    unfolding statusFlow_def status_message_bump [OF c assms(3) v] by simp
  have p: "snd (pushFlow lc r api) =
     (pushBaseResult lc ?c Invalid)
       \<lparr> PushStatusResult.message := [''Schema changes are valid!'',
           ''Please increment your version number to 1'',
           ''and run 'basic push' if you are ready to publish your changes.''] \<rparr>"
    unfolding pushFlow_def by (rule push_message_bump [OF c assms(3) v])
  have p1: "PushStatusResult.status (snd (pushFlow lc r api)) = Invalid"
    unfolding p by (simp add: pushBaseResult_def)
  have p2: "''Please increment your version number to 1'' \<in> set (PushStatusResult.message (snd (pushFlow lc r api)))"
    unfolding p by simp
  have p3: "PushStatusResult.validationErrors (snd (pushFlow lc r api)) = None"
    unfolding p by (simp add: pushBaseResult_def)
  have p4: "\<not> PushStatusResult.needsConfirmation (snd (pushFlow lc r api))"
    unfolding p by (simp add: pushBaseResult_def)
  have q1: "PullStatusResult.status (snd (pullFlow lc r api)) = Current"
    using c by (simp add: pullFlow_def pull_status)
  have q2: "fst (pullFlow lc r api) = []"
    using c by (simp add: pullFlow_def pull_calls)
  show ?thesis using s1 s2 p1 p2 p3 p4 q1 q2 by blast
qed

theorem version_0_outcomes_witness:
  "StatusResult.status (snd (statusFlow (localAt ''p1'' 0 tablesA) (schemaAt ''p1'' 0 (JObj []))
      (fixedApi validYes sameContent))) = Ahead \<and>
   PushStatusResult.status (snd (pushFlow (localAt ''p1'' 0 tablesA) (schemaAt ''p1'' 0 (JObj []))
      (fixedApi validYes sameContent))) = Invalid \<and>
   fst (pullFlow (localAt ''p1'' 0 tablesA) (schemaAt ''p1'' 0 (JObj [])) (fixedApi validYes sameContent)) = []"
  using version_0_outcomes [of "localAt ''p1'' 0 tablesA" "schemaAt ''p1'' 0 (JObj [])"
      "fixedApi validYes sameContent" "\<lparr> ValidationResult.valid = True, errors = None \<rparr>"]
  by (simp add: validYes_def)

subsection \<open>C3: a collaborator call that fails\<close>

text \<open>
  Claim C3, as stated, fails: with equal versions 2 and a content comparison that throws,
  the push flow answers \<open>current\<close>.
\<close>

theorem push_assumes_current_when_comparison_fails:
  "PushStatusResult.status (snd (pushFlow (localAt ''p1'' 2 tablesA) (schemaAt ''p1'' 2 tablesAx)
      (fixedApi validYes networkFailure))) = Current"
  by (simp add: pushFlow_def push_status cmp_status_cases networkFailure_def)

text \<open>
  Claim C3, amended. When the validation call an analyzer makes fails, the status and the
  push analyzer answer \<open>invalid\<close>; the pull analyzer never calls the validation. When the
  content comparison an analyzer makes fails, the status analyzer answers \<open>invalid\<close>,
  while the push and the pull analyzer answer \<open>current\<close> and say so in their last message
  line, \<^verbatim>\<open>(Unable to verify schema content - assuming current)\<close>. A call is made when
  it is in the analyzer's list of calls; \<open>cv\<close> and \<open>cc\<close> are any two verdicts of the
  comparator.
\<close>

theorem failed_call_outcomes:
  "(validateSchema api (SchemaFileResult.schema lc) = Inl e \<and>
      ValidateSchema (SchemaFileResult.schema lc) \<in> set (fst (analyzeStatus lc r cv api))
    \<longrightarrow> StatusResult.status (snd (analyzeStatus lc r cv api)) = Invalid) \<and>
   (validateSchema api (SchemaFileResult.schema lc) = Inl e \<and>
      ValidateSchema (SchemaFileResult.schema lc) \<in> set (fst (analyzePushAction lc r cv api))
    \<longrightarrow> PushStatusResult.status (snd (analyzePushAction lc r cv api)) = Invalid) \<and>
   ValidateSchema (SchemaFileResult.schema lc) \<notin> set (fst (analyzePullAction lc r cv api)) \<and>
   (compareSchema api (SchemaFileResult.schema lc) = Inl e' \<and>
      CompareSchema (SchemaFileResult.schema lc) \<in> set (fst (analyzeStatus lc r cc api))
    \<longrightarrow> StatusResult.status (snd (analyzeStatus lc r cc api)) = Invalid) \<and>
   (compareSchema api (SchemaFileResult.schema lc) = Inl e' \<and>
      CompareSchema (SchemaFileResult.schema lc) \<in> set (fst (analyzePushAction lc r cc api))
    \<longrightarrow> PushStatusResult.status (snd (analyzePushAction lc r cc api)) = Current \<and>
        last (PushStatusResult.message (snd (analyzePushAction lc r cc api))) =
          ''(Unable to verify schema content - assuming current)'') \<and>
   (compareSchema api (SchemaFileResult.schema lc) = Inl e' \<and>
      CompareSchema (SchemaFileResult.schema lc) \<in> set (fst (analyzePullAction lc r cc api))
    \<longrightarrow> PullStatusResult.status (snd (analyzePullAction lc r cc api)) = Current \<and>
        last (PullStatusResult.message (snd (analyzePullAction lc r cc api))) =
          ''(Unable to verify schema content - assuming current)'')"
proof -
  let ?s = "SchemaFileResult.schema lc"
  have a1: "validateSchema api ?s = Inl e \<and> ValidateSchema ?s \<in> set (fst (analyzeStatus lc r cv api))
    \<longrightarrow> StatusResult.status (snd (analyzeStatus lc r cv api)) = Invalid"
    by (cases "Comparison.status cv") (simp_all add: status_calls status_status)
  have a2: "validateSchema api ?s = Inl e \<and> ValidateSchema ?s \<in> set (fst (analyzePushAction lc r cv api))
    \<longrightarrow> PushStatusResult.status (snd (analyzePushAction lc r cv api)) = Invalid"
    by (cases "Comparison.status cv") (simp_all add: push_calls push_status)
  have a3: "ValidateSchema ?s \<notin> set (fst (analyzePullAction lc r cv api))"
    by (cases "Comparison.status cv") (simp_all add: pull_calls)
  have b1: "compareSchema api ?s = Inl e' \<and> CompareSchema ?s \<in> set (fst (analyzeStatus lc r cc api))
    \<longrightarrow> StatusResult.status (snd (analyzeStatus lc r cc api)) = Invalid"
    by (cases "Comparison.status cc") (simp_all add: status_calls status_status)
  have b2: "compareSchema api ?s = Inl e' \<and> CompareSchema ?s \<in> set (fst (analyzePushAction lc r cc api))
    \<longrightarrow> PushStatusResult.status (snd (analyzePushAction lc r cc api)) = Current \<and>
        last (PushStatusResult.message (snd (analyzePushAction lc r cc api))) =
          ''(Unable to verify schema content - assuming current)''"
  proof (cases "Comparison.status cc = CmpEqual \<and>
      \<not> (Comparison.localVersion cc = 0 \<and> Comparison.remoteVersion cc = 0)")
    case True
    then show ?thesis
      by (auto simp add: push_status push_message_unverified [where c = cc and api = api and e = e'])
  next
    case False
    then show ?thesis
      by (cases "Comparison.status cc") (auto simp add: push_calls)
  qed
  have b3: "compareSchema api ?s = Inl e' \<and> CompareSchema ?s \<in> set (fst (analyzePullAction lc r cc api))
    \<longrightarrow> PullStatusResult.status (snd (analyzePullAction lc r cc api)) = Current \<and>
        last (PullStatusResult.message (snd (analyzePullAction lc r cc api))) =
          ''(Unable to verify schema content - assuming current)''"
  proof (cases "Comparison.status cc = CmpEqual \<and>
      \<not> (Comparison.localVersion cc = 0 \<and> Comparison.remoteVersion cc = 0)")
    case True
    then show ?thesis
      by (auto simp add: pull_status pull_message_unverified [where c = cc and api = api and e = e'])
  next
    case False
    then show ?thesis
      by (cases "Comparison.status cc") (auto simp add: pull_calls)
  qed
  show ?thesis using a1 a2 a3 b1 b2 b3 by blast
qed

theorem failed_call_outcomes_witness:
  "StatusResult.status (snd (analyzeStatus (localAt ''p1'' 2 tablesA) (schemaAt ''p1'' 1 tablesA)
      (compareVersions (schemaAt ''p1'' 2 tablesA) (schemaAt ''p1'' 1 tablesA))
      (fixedApi networkFailure networkFailure))) = Invalid \<and>
   PushStatusResult.status (snd (analyzePushAction (localAt ''p1'' 2 tablesA) (schemaAt ''p1'' 1 tablesA)
      (compareVersions (schemaAt ''p1'' 2 tablesA) (schemaAt ''p1'' 1 tablesA))
      (fixedApi networkFailure networkFailure))) = Invalid \<and>
   StatusResult.status (snd (analyzeStatus (localAt ''p1'' 2 tablesA) (schemaAt ''p1'' 1 tablesA)
      (compareVersions (schemaAt ''p1'' 2 tablesA) (schemaAt ''p1'' 2 tablesA))
      (fixedApi networkFailure networkFailure))) = Invalid \<and>
   PushStatusResult.status (snd (analyzePushAction (localAt ''p1'' 2 tablesA) (schemaAt ''p1'' 1 tablesA)
      (compareVersions (schemaAt ''p1'' 2 tablesA) (schemaAt ''p1'' 2 tablesA))
      (fixedApi networkFailure networkFailure))) = Current \<and>
   PullStatusResult.status (snd (analyzePullAction (localAt ''p1'' 2 tablesA) (schemaAt ''p1'' 1 tablesA)
      (compareVersions (schemaAt ''p1'' 2 tablesA) (schemaAt ''p1'' 2 tablesA))
      (fixedApi networkFailure networkFailure))) = Current"
proof -
  let ?lc = "localAt ''p1'' 2 tablesA" and ?r = "schemaAt ''p1'' 1 tablesA"
  let ?cv = "compareVersions (schemaAt ''p1'' 2 tablesA) (schemaAt ''p1'' 1 tablesA)"
  let ?cc = "compareVersions (schemaAt ''p1'' 2 tablesA) (schemaAt ''p1'' 2 tablesA)"
  let ?api = "fixedApi networkFailure networkFailure"
  let ?e = "Error ''Network connection failed'' None"
  have v: "validateSchema ?api (SchemaFileResult.schema ?lc) = Inl ?e"
    by (simp add: networkFailure_def)
  have c: "compareSchema ?api (SchemaFileResult.schema ?lc) = Inl ?e"
    by (simp add: networkFailure_def)
  have l1: "ValidateSchema (SchemaFileResult.schema ?lc) \<in> set (fst (analyzeStatus ?lc ?r ?cv ?api))"
    by (simp add: status_calls cmp_status_cases)
  have l2: "ValidateSchema (SchemaFileResult.schema ?lc) \<in> set (fst (analyzePushAction ?lc ?r ?cv ?api))"
    by (simp add: push_calls cmp_status_cases)
  have l3: "CompareSchema (SchemaFileResult.schema ?lc) \<in> set (fst (analyzeStatus ?lc ?r ?cc ?api))"
    by (simp add: status_calls cmp_status_cases)
  have l4: "CompareSchema (SchemaFileResult.schema ?lc) \<in> set (fst (analyzePushAction ?lc ?r ?cc ?api))"
    by (simp add: push_calls cmp_status_cases)
  have l5: "CompareSchema (SchemaFileResult.schema ?lc) \<in> set (fst (analyzePullAction ?lc ?r ?cc ?api))"
    by (simp add: pull_calls cmp_status_cases)
  show ?thesis
    using failed_call_outcomes [of ?api ?lc ?e ?r ?cv ?e ?cc] v c l1 l2 l3 l4 l5
    by blast
qed

subsection \<open>C4: equal versions that are not 0\<close>

text \<open>
  Claim C4, as stated, fails for the push flow: with version 4 on both sides and a
  content comparison that answers \<^verbatim>\<open>valid: false\<close> it answers \<open>invalid\<close>, not
  \<open>conflict\<close> (the type of its status has no \<open>conflict\<close>).
\<close>

theorem push_invalid_on_differing_content:
  "PushStatusResult.status (snd (pushFlow (localAt ''p1'' 4 tablesA) (schemaAt ''p1'' 4 tablesAx)
      (fixedApi validYes differentContent))) = Invalid"
  by (simp add: pushFlow_def push_status cmp_status_cases differentContent_def)

text \<open>
  Claim C4, amended. When the local and the remote version are equal and not 0, each of
  the three flows makes exactly one collaborator call, the content comparison of the local
  schema. When that comparison answers \<^verbatim>\<open>valid: false\<close>, the status and the pull flow
  answer \<open>conflict\<close>, and the push flow answers \<open>invalid\<close> with the message to
  increment the version number; none answers \<open>current\<close>.
\<close>

theorem equal_nonzero_outcomes:
  assumes "versionOr0 (SchemaFileResult.schema lc) = versionOr0 r" and "versionOr0 r \<noteq> 0"
  shows "fst (statusFlow lc r api) = [CompareSchema (SchemaFileResult.schema lc)] \<and>
         fst (pushFlow lc r api) = [CompareSchema (SchemaFileResult.schema lc)] \<and>
         fst (pullFlow lc r api) = [CompareSchema (SchemaFileResult.schema lc)] \<and>
         (compareSchema api (SchemaFileResult.schema lc) = Inr cr \<and> \<not> CompareResult.valid cr \<longrightarrow>
            StatusResult.status (snd (statusFlow lc r api)) = Conflict \<and>
            PullStatusResult.status (snd (pullFlow lc r api)) = Conflict \<and>
            PushStatusResult.status (snd (pushFlow lc r api)) = Invalid \<and>
            PushStatusResult.message (snd (pushFlow lc r api)) =
              [''Your local schema differs from the remote schema.'',
               ''Please increment your version number before pushing changes.''])"
proof -
  let ?c = "compareVersions (SchemaFileResult.schema lc) r"
  have c: "Comparison.status ?c = CmpEqual"
    "\<not> (Comparison.localVersion ?c = 0 \<and> Comparison.remoteVersion ?c = 0)"
    using assms by (simp_all add: cmp_status_cases)
  have calls: "fst (statusFlow lc r api) = [CompareSchema (SchemaFileResult.schema lc)]"
    "fst (pushFlow lc r api) = [CompareSchema (SchemaFileResult.schema lc)]"
    "fst (pullFlow lc r api) = [CompareSchema (SchemaFileResult.schema lc)]"
    using c by (simp_all add: statusFlow_def pushFlow_def pullFlow_def status_calls push_calls pull_calls)
  have out: "StatusResult.status (snd (statusFlow lc r api)) = Conflict \<and>
            PullStatusResult.status (snd (pullFlow lc r api)) = Conflict \<and>
            PushStatusResult.status (snd (pushFlow lc r api)) = Invalid \<and>
            PushStatusResult.message (snd (pushFlow lc r api)) =
              [''Your local schema differs from the remote schema.'',
               ''Please increment your version number before pushing changes.'']"
    if "compareSchema api (SchemaFileResult.schema lc) = Inr cr" "\<not> CompareResult.valid cr"
    using c that push_message_differs [OF c that]
    by (simp add: statusFlow_def pushFlow_def pullFlow_def status_status push_status pull_status)
  show ?thesis using calls out by blast
qed

theorem equal_nonzero_outcomes_witness:
  "fst (statusFlow (localAt ''p1'' 2 tablesA) (schemaAt ''p1'' 2 tablesAx) (fixedApi validYes differentContent)) =
     [CompareSchema (schemaAt ''p1'' 2 tablesA)] \<and>
   StatusResult.status (snd (statusFlow (localAt ''p1'' 2 tablesA) (schemaAt ''p1'' 2 tablesAx)
      (fixedApi validYes differentContent))) = Conflict \<and>
   PullStatusResult.status (snd (pullFlow (localAt ''p1'' 2 tablesA) (schemaAt ''p1'' 2 tablesAx)
      (fixedApi validYes differentContent))) = Conflict \<and>
   PushStatusResult.status (snd (pushFlow (localAt ''p1'' 2 tablesA) (schemaAt ''p1'' 2 tablesAx)
      (fixedApi validYes differentContent))) = Invalid"
  using equal_nonzero_outcomes [of "localAt ''p1'' 2 tablesA" "schemaAt ''p1'' 2 tablesAx"
      "fixedApi validYes differentContent" "\<lparr> CompareResult.valid = False \<rparr>"]
  by (simp add: differentContent_def)

subsection \<open>C10: a validation answer with valid false and no errors member\<close>




subsection \<open>C5: the push state machine\<close>

lemma push_needsConfirmation_iff_ahead:
  "PushStatusResult.needsConfirmation (snd (analyzePushAction lc r c api)) \<longleftrightarrow>
   PushStatusResult.status (snd (analyzePushAction lc r c api)) = Ahead"
  by (cases "Comparison.status c")
     (auto simp add: push_needsConfirmation push_status split: sum.splits)

text \<open>What the mount effect leaves behind, by the answers of the collaborators.\<close>

lemma checkPushStatus_phase:
  "PushState.phase (fst (checkPushStatus env fs)) \<in> {Confirming, NoAction, ErrorPhase}"
  by (simp add: checkPushStatus_def pushError_def Let_def case_prod_beta
      split: sum.splits option.splits)

lemma checkPushStatus_outcome:
  "(case PushState.statusResult (fst (checkPushStatus env fs)) of
      Some sr \<Rightarrow>
        PushState.phase (fst (checkPushStatus env fs)) =
          (if PushStatusResult.status sr = Ahead then Confirming else NoAction)
    | None \<Rightarrow> PushState.phase (fst (checkPushStatus env fs)) = ErrorPhase)"
proof (cases "isOnline env")
  case (Inl e)
  then show ?thesis by (simp add: checkPushStatus_def pushError_def)
next
  case online: (Inr b)
  show ?thesis
  proof (cases "b")
    case False
    then show ?thesis using online by (simp add: checkPushStatus_def pushError_def)
  next
    case True
    show ?thesis
    proof (cases "getToken env")
      case (Inl e)
      then show ?thesis using online True by (simp add: checkPushStatus_def pushError_def)
    next
      case token: (Inr t)
      show ?thesis
      proof (cases t)
        case None
        then show ?thesis using online True token by (simp add: checkPushStatus_def pushError_def)
      next
        case (Some tok)
        show ?thesis
        proof (cases "Env.readSchemaFromConfig env fs")
          case (Inl e)
          then show ?thesis
            using online True token Some by (simp add: checkPushStatus_def pushError_def)
        next
          case rd: (Inr cfg)
          show ?thesis
          proof (cases cfg)
            case None
            then show ?thesis
              using online True token Some rd
              by (simp add: checkPushStatus_def pushNoSchemaResult_def)
          next
            case lc: (Some localConfig)
            show ?thesis
            proof (cases "getProjectSchema (apiClient env) (SchemaFileResult.projectId localConfig)")
              case (Inl e)
              then show ?thesis
                using online True token Some rd lc by (simp add: checkPushStatus_def pushError_def)
            next
              case (Inr fetched)
              then show ?thesis
                using online True token Some rd lc
                by (simp add: checkPushStatus_def Let_def case_prod_beta
                    push_needsConfirmation_iff_ahead)
            qed
          qed
        qed
      qed
    qed
  qed
qed

lemma checkPushStatus_confirming:
  assumes "PushState.phase (fst (checkPushStatus env fs)) = Confirming"
  shows "\<exists>lc fetched.
           Env.readSchemaFromConfig env fs = Inr (Some lc) \<and>
           getProjectSchema (apiClient env) (SchemaFileResult.projectId lc) = Inr fetched \<and>
           Comparison.status
             (compareVersions (SchemaFileResult.schema lc)
                (case fetched of None \<Rightarrow> emptyRemoteSchema (SchemaFileResult.projectId lc)
                 | Some s \<Rightarrow> s)) = CmpAhead"
  using assms
  by (auto simp add: checkPushStatus_def pushError_def Let_def case_prod_beta push_needsConfirmation
      split: sum.splits option.splits if_splits)

lemma checkPushStatus_no_push:
  "Api (PushProjectSchema pid s) \<notin> set (snd (checkPushStatus env fs))"
  by (auto simp add: checkPushStatus_def pushError_def Let_def case_prod_beta push_calls
      split: sum.splits option.splits CompareStatus.splits)

text \<open>
  The invariant of a run whose check did not end in the confirmation dialog: the
  component is still checking or has ended without action or with an error, the files are
  as they were, and no push was sent.
\<close>

lemma pushStep_checking_settle:
  "PushState.phase (state app) = Checking \<Longrightarrow>
   pushStep env Settle app =
     app \<lparr> state := fst (checkPushStatus env (files app)),
           log := log app @ snd (checkPushStatus env (files app)) \<rparr>"
  by (simp add: pushStep_def case_prod_beta)

lemma pushStep_idle:
  "PushState.phase (state app) \<in> {Checking, NoAction, ErrorPhase, Success} \<Longrightarrow>
   \<not> (PushState.phase (state app) = Checking \<and> ev = Settle) \<Longrightarrow>
   pushStep env ev app = app"
  by (cases ev; cases "PushState.phase (state app)") (simp_all add: pushStep_def)

lemma pushStep_never_pushed:
  assumes "PushState.phase (fst (checkPushStatus env fs)) \<noteq> Confirming"
    and "PushState.phase (state app) \<in> {Checking, NoAction, ErrorPhase}"
    and "files app = fs"
    and "\<forall>pid s. Api (PushProjectSchema pid s) \<notin> set (log app)"
  shows "PushState.phase (state (pushStep env ev app)) \<in> {Checking, NoAction, ErrorPhase} \<and>
         files (pushStep env ev app) = fs \<and>
         (\<forall>pid s. Api (PushProjectSchema pid s) \<notin> set (log (pushStep env ev app)))"
proof (cases "PushState.phase (state app) = Checking \<and> ev = Settle")
  case True
  have ph: "PushState.phase (fst (checkPushStatus env fs)) \<in> {NoAction, ErrorPhase}"
    using checkPushStatus_phase [of env fs] assms(1) by auto
  have st: "pushStep env ev app =
     app \<lparr> state := fst (checkPushStatus env fs), log := log app @ snd (checkPushStatus env fs) \<rparr>"
    using True assms(3) pushStep_checking_settle [of app env] by simp
  show ?thesis
    unfolding st using ph assms(3,4) by (simp add: checkPushStatus_no_push)
next
  case False
  then have "pushStep env ev app = app"
    using assms(2) by (intro pushStep_idle) auto
  then show ?thesis using assms by simp
qed

lemma pushRun_never_pushed:
  assumes "PushState.phase (fst (checkPushStatus env fs)) \<noteq> Confirming"
    and "PushState.phase (state app) \<in> {Checking, NoAction, ErrorPhase}"
    and "files app = fs"
    and "\<forall>pid s. Api (PushProjectSchema pid s) \<notin> set (log app)"
  shows "PushState.phase (state (pushRun env evs app)) \<in> {Checking, NoAction, ErrorPhase} \<and>
         files (pushRun env evs app) = fs \<and>
         (\<forall>pid s. Api (PushProjectSchema pid s) \<notin> set (log (pushRun env evs app)))"
  using assms(2-)
proof (induction evs arbitrary: app)
  case Nil
  then show ?case by (simp add: pushRun_def)
next
  case (Cons ev evs)
  have step: "PushState.phase (state (pushStep env ev app)) \<in> {Checking, NoAction, ErrorPhase} \<and>
         files (pushStep env ev app) = fs \<and>
         (\<forall>pid s. Api (PushProjectSchema pid s) \<notin> set (log (pushStep env ev app)))"
    by (rule pushStep_never_pushed [OF assms(1) Cons.prems])
  have "pushRun env (ev # evs) app = pushRun env evs (pushStep env ev app)"
    by (simp add: pushRun_def)
  then show ?case using Cons.IH [of "pushStep env ev app"] step by simp
qed

lemma behind_not_confirming:
  assumes "Env.readSchemaFromConfig env fs = Inr (Some lc)"
    and "getProjectSchema (apiClient env) (SchemaFileResult.projectId lc) = Inr fetched"
    and "Comparison.status
           (compareVersions (SchemaFileResult.schema lc)
              (case fetched of None \<Rightarrow> emptyRemoteSchema (SchemaFileResult.projectId lc)
               | Some s \<Rightarrow> s)) = CmpBehind"
  shows "PushState.phase (fst (checkPushStatus env fs)) \<noteq> Confirming"
proof
  assume "PushState.phase (fst (checkPushStatus env fs)) = Confirming"
  from checkPushStatus_confirming [OF this] assms show False by auto
qed

text \<open>
  Claim C5. The push analyzer asks for confirmation exactly when the status it returns
  is \<open>ahead\<close>; the mount effect ends in the confirmation dialog when its analysis asks for
  confirmation and in \<open>no-action\<close> otherwise (in \<open>error\<close> when there is no analysis). In a
  run in which the check reads a local config and fetches a remote schema for which the
  comparator says \<open>behind\<close>, no sequence of events reaches the phase \<open>pushing\<close> or
  \<open>success\<close>, and the gateway never receives a push.
\<close>

theorem push_confirmation_iff_ahead_and_never_behind:
  "(PushStatusResult.needsConfirmation (snd (analyzePushAction lc r c api)) \<longleftrightarrow>
      PushStatusResult.status (snd (analyzePushAction lc r c api)) = Ahead) \<and>
   (case PushState.statusResult (fst (checkPushStatus env fs)) of
      Some sr \<Rightarrow>
        PushState.phase (fst (checkPushStatus env fs)) =
          (if PushStatusResult.status sr = Ahead then Confirming else NoAction)
    | None \<Rightarrow> PushState.phase (fst (checkPushStatus env fs)) = ErrorPhase) \<and>
   (Env.readSchemaFromConfig env fs = Inr (Some lc') \<and>
    getProjectSchema (apiClient env) (SchemaFileResult.projectId lc') = Inr fetched \<and>
    Comparison.status
      (compareVersions (SchemaFileResult.schema lc')
         (case fetched of None \<Rightarrow> emptyRemoteSchema (SchemaFileResult.projectId lc')
          | Some s \<Rightarrow> s)) = CmpBehind
    \<longrightarrow> PushState.phase (state (pushRun env evs (pushInit fs))) \<noteq> Pushing \<and>
        PushState.phase (state (pushRun env evs (pushInit fs))) \<noteq> Success \<and>
        (\<forall>pid s. Api (PushProjectSchema pid s) \<notin> set (log (pushRun env evs (pushInit fs)))))"
proof -
  have a: "PushStatusResult.needsConfirmation (snd (analyzePushAction lc r c api)) \<longleftrightarrow>
      PushStatusResult.status (snd (analyzePushAction lc r c api)) = Ahead"
    by (rule push_needsConfirmation_iff_ahead)
  have b: "(case PushState.statusResult (fst (checkPushStatus env fs)) of
      Some sr \<Rightarrow>
        PushState.phase (fst (checkPushStatus env fs)) =
          (if PushStatusResult.status sr = Ahead then Confirming else NoAction)
    | None \<Rightarrow> PushState.phase (fst (checkPushStatus env fs)) = ErrorPhase)"
    by (rule checkPushStatus_outcome)
  have c: "PushState.phase (state (pushRun env evs (pushInit fs))) \<noteq> Pushing \<and>
        PushState.phase (state (pushRun env evs (pushInit fs))) \<noteq> Success \<and>
        (\<forall>pid s. Api (PushProjectSchema pid s) \<notin> set (log (pushRun env evs (pushInit fs))))"
    if h: "Env.readSchemaFromConfig env fs = Inr (Some lc')"
      "getProjectSchema (apiClient env) (SchemaFileResult.projectId lc') = Inr fetched"
      "Comparison.status
        (compareVersions (SchemaFileResult.schema lc')
           (case fetched of None \<Rightarrow> emptyRemoteSchema (SchemaFileResult.projectId lc')
            | Some s \<Rightarrow> s)) = CmpBehind"
  proof -
    have nc: "PushState.phase (fst (checkPushStatus env fs)) \<noteq> Confirming"
      by (rule behind_not_confirming [OF h])
    have "PushState.phase (state (pushRun env evs (pushInit fs))) \<in> {Checking, NoAction, ErrorPhase} \<and>
         files (pushRun env evs (pushInit fs)) = fs \<and>
         (\<forall>pid s. Api (PushProjectSchema pid s) \<notin> set (log (pushRun env evs (pushInit fs))))"
      by (rule pushRun_never_pushed [OF nc]) (simp_all add: pushInit_def)
    then show ?thesis by auto
  qed
  show ?thesis using a b c by blast
qed

lemma exampleEnv_answers [simp]:
  "isOnline (exampleEnv lc remote v c) = Inr True"
  "getToken (exampleEnv lc remote v c) = Inr (Some exampleToken)"
  "Env.readSchemaFromConfig (exampleEnv lc remote v c) fs = Inr (Some lc)"
  "getProjectSchema (apiClient (exampleEnv lc remote v c)) pid = Inr remote"
  "validateSchema (apiClient (exampleEnv lc remote v c)) s = v"
  "compareSchema (apiClient (exampleEnv lc remote v c)) s = c"
  by (simp_all add: exampleEnv_def fixedApi_def)

theorem push_confirmation_iff_ahead_and_never_behind_witness:
  "Comparison.status (compareVersions (schemaAt ''p1'' 3 tablesA) (schemaAt ''p1'' 5 tablesAx)) = CmpBehind \<and>
   PushState.phase (state (pushRun
      (exampleEnv (localAt ''p1'' 3 tablesA) (Some (schemaAt ''p1'' 5 tablesAx)) validYes sameContent)
      [Settle, Input '''' keyReturn, Settle] (pushInit exampleFiles))) \<noteq> Pushing \<and>
   PushState.phase (state (pushRun
      (exampleEnv (localAt ''p1'' 3 tablesA) (Some (schemaAt ''p1'' 5 tablesAx)) validYes sameContent)
      [Settle, Input '''' keyReturn, Settle] (pushInit exampleFiles))) \<noteq> Success"
  using push_confirmation_iff_ahead_and_never_behind
    [where env = "exampleEnv (localAt ''p1'' 3 tablesA) (Some (schemaAt ''p1'' 5 tablesAx)) validYes sameContent"
       and fs = exampleFiles and lc' = "localAt ''p1'' 3 tablesA"
       and fetched = "Some (schemaAt ''p1'' 5 tablesAx)"
       and evs = "[Settle, Input '''' keyReturn, Settle]"]
  by (simp add: cmp_status_cases)

subsection \<open>C6: the pull state machine\<close>














subsection \<open>C9: what readSchemaFromConfig checks\<close>

text \<open>
  Claim C9 does not hold for a \<^verbatim>\<open>.json\<close> config: the value of \<^verbatim>\<open>JSON.parse\<close> is only
  checked for a truthy \<^verbatim>\<open>project_id\<close>. A config file \<^verbatim>\<open>basic.config.json\<close> whose
  version is the string \<^verbatim>\<open>"1"\<close> is returned as it is, neither an error nor null.
\<close>

theorem readSchemaFromConfig_json_string_version:
  "readSchemaFromConfig exampleParsers workDir (jsonConfig schemaStringVersion) =
     Inr (Some \<lparr> RawSchemaFileResult.schema = schemaStringVersion, projectId = JStr ''p1'',
       filePath = ''/work/basic.config.json'' \<rparr>)"
  by code_simp

text \<open>The same schema in a \<^verbatim>\<open>.ts\<close> config is rejected by extractSchemaFromCode.\<close>

lemma readSchemaFromConfig_ts_string_version:
  "readSchemaFromConfig exampleParsers workDir (tsConfig schemaStringVersion) =
     Inl (Error ''Error reading basic.config.ts: Error parsing schema: Schema must have a version number field'' None)"
  by code_simp

subsection \<open>C8: saving a schema and reading it back\<close>








lemma endsWith_ts [simp]: "\<not> endsWith ''basic.config.ts'' ''.json''"
  by (simp add: endsWith_def)








lemma groupText_append [simp]: "groupText g (a @ b) = groupText g a @ groupText g b"
  by (simp add: groupText_def)

lemma groupText_Pair [simp]: "groupText g (map (Pair h) s) = (if g = h then s else [])"
  by (induction s) (auto simp add: groupText_def)

lemma groupText_Cons [simp]:
  "groupText g ((h, c) # m) = (if g = h then c # groupText g m else groupText g m)"
  by (simp add: groupText_def)

lemma groupText_Nil [simp]: "groupText g [] = []"
  by (simp add: groupText_def)

lemma matched_append [simp]: "matched (a @ b) = matched a @ matched b"
  by (simp add: matched_def)

lemma matched_Pair [simp]: "matched (map (Pair h) s) = s"
  by (induction s) (auto simp add: matched_def)

lemma matched_Cons [simp]: "matched ((h, c) # m) = c # matched m"
  by (simp add: matched_def)

lemma matched_Nil [simp]: "matched [] = []"
  by (simp add: matched_def)




















section \<open>Further facts about reading and rewriting the config file\<close>

lemma typeofMember_string: "typeofMember m = ''string'' \<Longrightarrow> \<exists>s. m = Some (JStr s)"
  by (cases m) (auto simp add: typeofMember_def elim: typeof.elims)

lemma typeofMember_number: "typeofMember m = ''number'' \<Longrightarrow> \<exists>n. m = Some (JNum n)"
  by (cases m) (auto simp add: typeofMember_def elim: typeof.elims)

lemma validateStructure_Inr:
  assumes "validateStructure obj = Inr s"
  shows "s = obj \<and> (\<exists>pid n. getMember obj ''project_id'' = Inr (Some (JStr pid)) \<and> pid \<noteq> [] \<and>
           getMember obj ''version'' = Inr (Some (JNum n)))"
proof -
  obtain pm where pm: "getMember obj ''project_id'' = Inr pm"
    using assms by (cases "getMember obj ''project_id''") (simp_all add: validateStructure_def)
  have p: "\<not> falsy pm" "typeofMember pm = ''string''"
    using assms pm by (auto simp add: validateStructure_def split: if_splits)
  obtain vm where vm: "getMember obj ''version'' = Inr vm"
    using assms pm p by (cases "getMember obj ''version''") (simp_all add: validateStructure_def)
  have v: "typeofMember vm = ''number''"
    using assms pm p vm by (auto simp add: validateStructure_def split: if_splits)
  have s: "s = obj"
    using assms pm p vm v by (auto simp add: validateStructure_def split: if_splits sum.splits)
  obtain pid where pid: "pm = Some (JStr pid)" using typeofMember_string [OF p(2)] by blast
  obtain n where n: "vm = Some (JNum n)" using typeofMember_number [OF v] by blast
  have "pid \<noteq> []" using p(1) pid by (simp add: falsy_def)
  then show ?thesis using s pm vm pid n by simp
qed

text \<open>What extractSchemaFromCode returns has a non-empty string \<^verbatim>\<open>project_id\<close> and a
  numeric \<^verbatim>\<open>version\<close>.\<close>

lemma extract_checks_structure:
  assumes "extractSchemaFromCode P content = Inr s"
  shows "\<exists>pid n. getMember s ''project_id'' = Inr (Some (JStr pid)) \<and> pid \<noteq> [] \<and>
           getMember s ''version'' = Inr (Some (JNum n))"
proof -
  have b: "extractSchemaBody P content = Inr s"
    using assms by (cases "extractSchemaBody P content") (simp_all add: extractSchemaFromCode_def)
  then obtain obj where "validateStructure obj = Inr s"
    by (auto simp add: extractSchemaBody_def split: sum.splits option.splits if_splits)
  from validateStructure_Inr [OF this] show ?thesis by blast
qed

lemma extract_error_code: "extractSchemaFromCode P content = Inl e \<Longrightarrow> errorCode e = None"
  by (cases "extractSchemaBody P content") (auto simp add: extractSchemaFromCode_def)

lemma getMember_error_code: "getMember obj k = Inl e \<Longrightarrow> errorCode e = None"
  by (cases obj) auto

text \<open>An existing file is never skipped, whatever it holds, as long as the errors of
  \<^verbatim>\<open>JSON.parse\<close> carry no code \<^verbatim>\<open>ENOENT\<close>.\<close>

lemma readOneConfig_error_code:
  assumes p: "\<forall>t e. JSON_parse P t = Inl e \<longrightarrow> errorCode e \<noteq> Some ''ENOENT''"
    and f: "fs path = Some content"
    and r: "readOneConfig P fs filename path = Inl e"
  shows "errorCode e \<noteq> Some ''ENOENT''"
proof (cases "endsWith filename ''.json''")
  case True
  show ?thesis
  proof (cases "JSON_parse P content")
    case (Inl e')
    then have "e = e'" using r f True by (simp add: readOneConfig_def readFile_def)
    then show ?thesis using p Inl by blast
  next
    case (Inr obj)
    show ?thesis
    proof (cases "getMember obj ''project_id''")
      case (Inl e')
      then have "e = e'" using r f True Inr by (simp add: readOneConfig_def readFile_def)
      then show ?thesis using getMember_error_code [OF Inl] by simp
    next
      case m: (Inr pm)
      then have "e = Error ''No project_id found in schema'' None"
        using r f True Inr by (cases pm) (auto simp add: readOneConfig_def readFile_def split: if_splits)
      then show ?thesis by simp
    qed
  qed
next
  case False
  show ?thesis
  proof (cases "extractSchemaFromCode P content")
    case (Inl e')
    then have "e = e'" using r f False by (simp add: readOneConfig_def readFile_def)
    then show ?thesis using extract_error_code [OF Inl] by simp
  next
    case (Inr obj)
    show ?thesis
    proof (cases "getMember obj ''project_id''")
      case (Inl e')
      then have "e = e'" using r f False Inr by (simp add: readOneConfig_def readFile_def)
      then show ?thesis using getMember_error_code [OF Inl] by simp
    next
      case m: (Inr pm)
      then have "e = Error ''No project_id found in schema'' None"
        using r f False Inr by (cases pm) (auto simp add: readOneConfig_def readFile_def split: if_splits)
      then show ?thesis by simp
    qed
  qed
qed

lemma readConfigFiles_null:
  assumes p: "\<forall>t e. JSON_parse P t = Inl e \<longrightarrow> errorCode e \<noteq> Some ''ENOENT''"
  shows "readConfigFiles P dir fs names = Inr None \<Longrightarrow> filename \<in> set names \<Longrightarrow>
         fs (pathJoin dir filename) = None"
proof (induction names)
  case Nil
  then show ?case by simp
next
  case (Cons n rest)
  show ?case
  proof (cases "readOneConfig P fs n (pathJoin dir n)")
    case (Inr result)
    then show ?thesis using Cons.prems by simp
  next
    case (Inl e)
    then have c: "errorCode e = Some ''ENOENT''" and rest: "readConfigFiles P dir fs rest = Inr None"
      using Cons.prems(1) by (auto split: if_splits)
    have "fs (pathJoin dir n) = None"
    proof (cases "fs (pathJoin dir n)")
      case None
      then show ?thesis .
    next
      case (Some content)
      from readOneConfig_error_code [OF p Some Inl] c show ?thesis by simp
    qed
    then show ?thesis using Cons.IH [OF rest] Cons.prems(2) by auto
  qed
qed

text \<open>
  The absent result stands for the absence of all three files: readSchemaFromConfig
  returns it when none of them exists, and only then.
\<close>

lemma read_null_iff_no_config:
  assumes "\<forall>t e. JSON_parse P t = Inl e \<longrightarrow> errorCode e \<noteq> Some ''ENOENT''"
  shows "readSchemaFromConfig P dir fs = Inr None \<longleftrightarrow>
         (\<forall>filename \<in> set possibleFiles. fs (pathJoin dir filename) = None)"
proof
  assume "readSchemaFromConfig P dir fs = Inr None"
  then show "\<forall>filename \<in> set possibleFiles. fs (pathJoin dir filename) = None"
    using readConfigFiles_null [OF assms] by (auto simp add: readSchemaFromConfig_def)
next
  assume "\<forall>filename \<in> set possibleFiles. fs (pathJoin dir filename) = None"
  then show "readSchemaFromConfig P dir fs = Inr None"
    by (simp add: readSchemaFromConfig_def possibleFiles_def readOneConfig_def readFile_def)
qed

text \<open>
  What the code path returns always has a non-empty string \<^verbatim>\<open>project_id\<close> and a
  numeric \<^verbatim>\<open>version\<close>: the checks the JSON path leaves out.
\<close>

lemma read_code_file_structure:
  assumes r: "readOneConfig P fs filename path = Inr result"
    and c: "\<not> endsWith filename ''.json''"
  shows "\<exists>pid n. getMember (RawSchemaFileResult.schema result) ''project_id'' = Inr (Some (JStr pid)) \<and>
           pid \<noteq> [] \<and>
           getMember (RawSchemaFileResult.schema result) ''version'' = Inr (Some (JNum n))"
proof -
  obtain content where f: "fs path = Some content"
    using r by (cases "fs path") (simp_all add: readOneConfig_def readFile_def)
  obtain obj where e: "extractSchemaFromCode P content = Inr obj"
    using r c f by (cases "extractSchemaFromCode P content") (simp_all add: readOneConfig_def readFile_def)
  have "RawSchemaFileResult.schema result = obj"
    using r c f e by (auto simp add: readOneConfig_def readFile_def split: sum.splits option.splits if_splits)
  then show ?thesis using extract_checks_structure [OF e] by simp
qed

text \<open>Three limits of the rewriting in saveSchemaToConfig.\<close>

text \<open>A dollar sequence in the new schema is expanded by \<^verbatim>\<open>String.prototype.replace\<close>:
  saving the project id \<^verbatim>\<open>a$&b\<close> writes the whole old declaration in its place.\<close>

lemma update_expands_dollar_sequence:
  "updateSchemaInCode (''const schema = {'' @ [CHR 0x22] @ ''x'' @ [CHR 0x22] @ '':1};'')
       (JObj [(''project_id'', JStr ''a$&b'')]) =
   Inr (''const schema = {'' @ [CHR 0x0A] @ ''  '' @ [CHR 0x22] @ ''project_id'' @ [CHR 0x22] @ '': '' @
        [CHR 0x22] @ ''aconst schema = {'' @ [CHR 0x22] @ ''x'' @ [CHR 0x22] @ '':1};b'' @ [CHR 0x22] @
        [CHR 0x0A] @ ''};'')"
  by code_simp

text \<open>A semicolon inside the old literal hides the declaration from all three patterns.\<close>

lemma update_fails_on_semicolon:
  "updateSchemaInCode (generateConfigContent (schemaObject ''p;1'' (JNum 1) (JObj []))) schemaV2 =
   Inl (Error ''Could not update schema in config file'' None)"
  by code_simp

text \<open>A negative number is written as \<^verbatim>\<open>-1\<close>, which is read as a unary expression and
  rejected by convertAstToObject.\<close>

lemma convert_negative_number:
  "convertAstToObject (literalOf (JNum (- 1))) = Inl (Error ''Unsupported node type: UnaryExpression'' None)"
  by simp

end
